theory Spec2Isabelle
  imports Complex_Main "HOL-Library.AList"
begin

section \<open>Python values, exceptions and the symbolic engine\<close>

text \<open>
  The program is glue code over SymPy: every decision it takes is a test on a value that
  SymPy returned. The embedding keeps the program's control flow (the order of the tests,
  the \<^verbatim>\<open>try\<close>/\<^verbatim>\<open>except\<close> blocks, the defaults, the dictionaries it builds)
  and takes the library as a parameter: a record \<open>env\<close> with one field for each library
  operation the program calls. A raised exception is the value \<open>Inl e\<close>; a function of
  the program that has a \<^verbatim>\<open>try\<close> around its whole body still has the type
  \<open>exn + 'a\<close>, and that it never raises is a theorem.

  A Python float is modelled by an exact rational number (a literal such as
  \<^verbatim>\<open>0.01\<close> by the decimal it is written as), or one of the two infinities or NaN;
  rounding is not modelled.
\<close>

datatype exn = Exn (exn_class: string) (exn_msg: string)

fun bnd :: "exn + 'a \<Rightarrow> ('a \<Rightarrow> exn + 'b) \<Rightarrow> exn + 'b" where
  "bnd (Inl e) f = Inl e"
| "bnd (Inr x) f = f x"

datatype pyfloat = Fin rat | PInf | NInf | NaN

datatype key = KStr string | KInt int

datatype pyval =
    PNone
  | PBool bool
  | PInt int
  | PFloat pyfloat
  | PStr string
  | PList "pyval list"
  | PDict "(key \<times> pyval) list"

text \<open>
  Expressions as the program writes them down. \<open>Sub\<close>, \<open>Div\<close>, \<open>Mul\<close>, \<open>Add\<close> and
  \<open>Pwr\<close> are Python's \<^verbatim>\<open>-\<close>, \<^verbatim>\<open>/\<close>, \<^verbatim>\<open>*\<close>, \<^verbatim>\<open>+\<close> and \<^verbatim>\<open>**\<close>
  on SymPy objects; \<open>AppT e\<close> is \<^verbatim>\<open>T(e)\<close> for the undefined function \<^verbatim>\<open>T\<close>;
  \<open>Other s\<close> stands for any SymPy object the program never builds itself.
\<close>

datatype expr =
    Integer int
  | Rational int int
  | Float rat
  | SymN
  | Oo
  | NegOo
  | Zoo
  | Nan
  | Add expr expr
  | Sub expr expr
  | Mul expr expr
  | Div expr expr
  | Pwr expr expr
  | Log expr
  | Sqrt expr
  | Abs expr
  | Factorial expr
  | AppT expr
  | Other string

record env =
  json_loads :: "string \<Rightarrow> exn + pyval"
  py_str :: "pyval \<Rightarrow> string"
  format_float :: "nat \<Rightarrow> pyfloat \<Rightarrow> string"
  preprocess :: "string \<Rightarrow> string"
  sympify :: "string \<Rightarrow> exn + expr"
  parse_expr :: "string \<Rightarrow> exn + expr"
  sympify_value :: "pyval \<Rightarrow> exn + expr"
  rmul :: "pyval \<Rightarrow> expr \<Rightarrow> exn + expr"
  rsolve :: "expr \<Rightarrow> (int \<times> expr) list \<Rightarrow> exn + expr option"
  simplify :: "expr \<Rightarrow> exn + expr"
  limit :: "expr \<Rightarrow> exn + expr"
  is_constant :: "expr \<Rightarrow> exn + bool option"
  is_number :: "expr \<Rightarrow> bool option"
  is_positive :: "expr \<Rightarrow> bool option"
  is_nonnegative :: "expr \<Rightarrow> bool option"
  is_finite :: "expr \<Rightarrow> bool option"
  is_polynomial :: "expr \<Rightarrow> exn + bool"
  poly_degree :: "expr \<Rightarrow> exn + expr"
  has_log :: "expr \<Rightarrow> exn + bool"
  to_float :: "expr \<Rightarrow> exn + pyfloat"
  evalf :: "expr \<Rightarrow> exn + expr"
  sym_log :: "pyval \<Rightarrow> pyval \<Rightarrow> exn + expr"
  subs_n :: "expr \<Rightarrow> expr \<Rightarrow> exn + expr"
  subs_T :: "expr \<Rightarrow> expr \<Rightarrow> expr \<Rightarrow> exn + expr"
  abs_complex_N :: "expr \<Rightarrow> exn + pyfloat"
  LT :: "expr \<Rightarrow> exn + expr"
  str :: "expr \<Rightarrow> string"
  latex :: "expr \<Rightarrow> string"

text \<open>The truth value Python gives \<^verbatim>\<open>True\<close>, \<^verbatim>\<open>False\<close> and \<^verbatim>\<open>None\<close>.\<close>

definition truthy :: "bool option \<Rightarrow> bool" where
  "truthy b = (b = Some True)"

section \<open>Python's own functions\<close>

definition digit_chars :: "string" where
  "digit_chars = ''0123456789''"

definition is_digit :: "char \<Rightarrow> bool" where
  "is_digit c = (c \<in> set digit_chars)"

text \<open>The value of a digit is its place in \<open>digit_chars\<close>.\<close>

definition digit_val :: "char \<Rightarrow> nat" where
  "digit_val c = length (takeWhile (\<lambda>d. d \<noteq> c) digit_chars)"

fun nat_of_digits :: "nat \<Rightarrow> string \<Rightarrow> nat" where
  "nat_of_digits acc [] = acc"
| "nat_of_digits acc (c # cs) = nat_of_digits (10 * acc + digit_val c) cs"

definition is_space :: "char \<Rightarrow> bool" where
  "is_space c = (c \<in> set [CHR '' '', CHR 0x09, CHR 0x0A, CHR 0x0B, CHR 0x0C, CHR 0x0D])"

definition strip :: "string \<Rightarrow> string" where
  "strip s = rev (dropWhile is_space (rev (dropWhile is_space s)))"

text \<open>
  \<^verbatim>\<open>int(k)\<close> on a string: surrounding white space, an optional sign, then decimal digits
  with single underscores between them; anything else is a \<^verbatim>\<open>ValueError\<close>.
\<close>

fun digits_ok :: "bool \<Rightarrow> string \<Rightarrow> bool" where
  "digits_ok after_digit [] = after_digit"
| "digits_ok after_digit (c # cs) =
     (if is_digit c then digits_ok True cs
      else if c = CHR ''_'' \<and> after_digit then digits_ok False cs
      else False)"

definition int_literal_error :: "string \<Rightarrow> exn" where
  "int_literal_error s =
     Exn ''ValueError'' (''invalid literal for int() with base 10: '' @ [CHR 0x27] @ s @ [CHR 0x27])"

definition py_int :: "string \<Rightarrow> exn + int" where
  "py_int s =
     (let t = strip s;
          (neg, body) = (case t of
              [] \<Rightarrow> (False, [])
            | c # cs \<Rightarrow> if c = CHR ''-'' then (True, cs)
                        else if c = CHR ''+'' then (False, cs) else (False, t));
          v = int (nat_of_digits 0 (filter is_digit body))
      in if digits_ok False body then Inr (if neg then - v else v)
         else Inl (int_literal_error s))"

fun str_nat_fuel :: "nat \<Rightarrow> nat \<Rightarrow> string \<Rightarrow> string" where
  "str_nat_fuel 0 n acc = acc"
| "str_nat_fuel (Suc k) n acc =
     (if n < 10 then (digit_chars ! n) # acc
      else str_nat_fuel k (n div 10) ((digit_chars ! (n mod 10)) # acc))"

definition str_nat :: "nat \<Rightarrow> string" where
  "str_nat n = str_nat_fuel (Suc n) n []"

definition str_int :: "int \<Rightarrow> string" where
  "str_int i = (if i < 0 then CHR ''-'' # str_nat (nat (- i)) else str_nat (nat i))"

fun starts_with :: "string \<Rightarrow> string \<Rightarrow> bool" where
  "starts_with [] s = True"
| "starts_with (p # ps) [] = False"
| "starts_with (p # ps) (c # cs) = (p = c \<and> starts_with ps cs)"

text \<open>\<^verbatim>\<open>sub in s\<close> on strings.\<close>

fun contains :: "string \<Rightarrow> string \<Rightarrow> bool" where
  "contains sub [] = (sub = [])"
| "contains sub (c # cs) = (starts_with sub (c # cs) \<or> contains sub cs)"

text \<open>Float arithmetic and comparison, with the infinities and NaN as IEEE 754 has them.\<close>

fun fl_neg :: "pyfloat \<Rightarrow> pyfloat" where
  "fl_neg (Fin q) = Fin (- q)"
| "fl_neg PInf = NInf"
| "fl_neg NInf = PInf"
| "fl_neg NaN = NaN"

fun fl_add :: "pyfloat \<Rightarrow> pyfloat \<Rightarrow> pyfloat" where
  "fl_add (Fin p) (Fin q) = Fin (p + q)"
| "fl_add NaN y = NaN"
| "fl_add x NaN = NaN"
| "fl_add PInf NInf = NaN"
| "fl_add NInf PInf = NaN"
| "fl_add PInf y = PInf"
| "fl_add NInf y = NInf"
| "fl_add x PInf = PInf"
| "fl_add x NInf = NInf"

definition fl_sub :: "pyfloat \<Rightarrow> pyfloat \<Rightarrow> pyfloat" where
  "fl_sub x y = fl_add x (fl_neg y)"

fun fl_abs :: "pyfloat \<Rightarrow> pyfloat" where
  "fl_abs (Fin q) = Fin \<bar>q\<bar>"
| "fl_abs PInf = PInf"
| "fl_abs NInf = PInf"
| "fl_abs NaN = NaN"

fun fl_less :: "pyfloat \<Rightarrow> pyfloat \<Rightarrow> bool" where
  "fl_less (Fin p) (Fin q) = (p < q)"
| "fl_less NaN y = False"
| "fl_less x NaN = False"
| "fl_less x NInf = False"
| "fl_less PInf y = False"
| "fl_less NInf y = True"
| "fl_less x PInf = True"

text \<open>\<^verbatim>\<open>int(x)\<close> on a float truncates towards zero and raises on an infinity or NaN.\<close>

fun py_int_of_float :: "pyfloat \<Rightarrow> exn + int" where
  "py_int_of_float (Fin q) = Inr (if q < 0 then - \<lfloor>- q\<rfloor> else \<lfloor>q\<rfloor>)"
| "py_int_of_float NaN = Inl (Exn ''ValueError'' ''cannot convert float NaN to integer'')"
| "py_int_of_float x = Inl (Exn ''OverflowError'' ''cannot convert float infinity to integer'')"

text \<open>\<^verbatim>\<open>x == i\<close> for a float \<open>x\<close> and an integer \<open>i\<close>.\<close>

definition fl_eq_int :: "pyfloat \<Rightarrow> int \<Rightarrow> bool" where
  "fl_eq_int x i = (x = Fin (of_int i))"

section \<open>The growth ladder classifier\<close>

definition candidates :: "(expr \<times> string) list" where
  "candidates =
    [(Integer 1, ''O(1)''),
     (Log SymN, ''O(log(n))''),
     (Pwr (Log SymN) (Integer 2), ''O(log^2(n))''),
     (Sqrt SymN, ''O(sqrt(n))''),
     (SymN, ''O(n)''),
     (Mul SymN (Log SymN), ''O(n*log(n))''),
     (Mul SymN (Pwr (Log SymN) (Integer 2)), ''O(n*log^2(n))''),
     (Pwr SymN (Rational 3 2), ''O(n^(3/2))''),
     (Pwr SymN (Integer 2), ''O(n^2)''),
     (Mul (Pwr SymN (Integer 2)) (Log SymN), ''O(n^2*log(n))''),
     (Pwr SymN (Integer 3), ''O(n^3)''),
     (Pwr SymN (Integer 4), ''O(n^4)''),
     (Pwr (Rational 3 2) SymN, ''O(1.5^n)''),
     (Div (Add (Integer 1) (Sqrt (Integer 5))) (Integer 2), ''O(phi^n)''),
     (Pwr (Integer 2) SymN, ''O(2^n)''),
     (Factorial SymN, ''O(n!)'')]"

text \<open>\<^verbatim>\<open>limit(simplify(f / g), n, oo)\<close>, the quantity every comparison starts from.\<close>

definition ratio_limit :: "env \<Rightarrow> expr \<Rightarrow> expr \<Rightarrow> exn + expr" where
  "ratio_limit E f g = bnd (simplify E (Div f g)) (limit E)"

text \<open>\<^verbatim>\<open>lim.is_number and lim.is_positive and lim.is_finite\<close>\<close>

definition finite_positive :: "env \<Rightarrow> expr \<Rightarrow> bool" where
  "finite_positive E l = (truthy (is_number E l) \<and> truthy (is_positive E l) \<and> truthy (is_finite E l))"

text \<open>
  The loop over the candidates. An iteration returns the label, or goes on to the next
  candidate: on limit \<open>0\<close>, on an infinite limit, on any other limit, and on an exception.
\<close>

fun scan :: "env \<Rightarrow> expr \<Rightarrow> (expr \<times> string) list \<Rightarrow> string option" where
  "scan E e [] = None"
| "scan E e ((candidate_expr, candidate_str) # cs) =
     (case ratio_limit E e candidate_expr of
        Inl _ \<Rightarrow> scan E e cs
      | Inr lm \<Rightarrow>
          if finite_positive E lm then Some candidate_str
          else if lm = Integer 0 then scan E e cs
          else if lm \<in> {Oo, Zoo} then scan E e cs
          else scan E e cs)"

definition extract_degree_via_limit :: "env \<Rightarrow> expr \<Rightarrow> exn + pyfloat option" where
  "extract_degree_via_limit E e =
     (case bnd (simplify E (Div (Log (Abs e)) (Log SymN))) (\<lambda>log_ratio.
           bnd (limit E log_ratio) (\<lambda>degree_limit.
             if truthy (is_number E degree_limit) \<and> truthy (is_finite E degree_limit)
             then bnd (to_float E degree_limit) (\<lambda>d. Inr (Some d))
             else Inr None)) of
        Inl _ \<Rightarrow> Inr None
      | Inr r \<Rightarrow> Inr r)"

definition degree_class :: "env \<Rightarrow> pyfloat \<Rightarrow> exn + string" where
  "degree_class E degree =
     bnd (py_int_of_float degree) (\<lambda>i.
       if fl_eq_int degree i then Inr (''O(n^'' @ str_int i @ '')'')
       else Inr (''O(n^'' @ format_float E 2 degree @ '')''))"

definition leading_class :: "env \<Rightarrow> expr \<Rightarrow> string" where
  "leading_class E e =
     (case LT E e of
        Inr leading \<Rightarrow> ''O('' @ str E leading @ '')''
      | Inl _ \<Rightarrow> ''O('' @ str E e @ '')'')"

definition extract_complexity_body :: "env \<Rightarrow> expr \<Rightarrow> exn + string" where
  "extract_complexity_body E e =
     bnd (is_constant E e) (\<lambda>c.
       if truthy c then Inr ''O(1)''
       else case scan E e candidates of
          Some candidate_str \<Rightarrow> Inr candidate_str
        | None \<Rightarrow>
            bnd (extract_degree_via_limit E e) (\<lambda>degree.
              case degree of
                Some d \<Rightarrow> degree_class E d
              | None \<Rightarrow> Inr (leading_class E e)))"

definition extract_complexity :: "env \<Rightarrow> expr \<Rightarrow> exn + string" where
  "extract_complexity E e =
     (case extract_complexity_body E e of
        Inl _ \<Rightarrow> Inr ''O(?)''
      | Inr s \<Rightarrow> Inr s)"

section \<open>The notation adapter\<close>

text \<open>
  \<^verbatim>\<open>ComplexityParser.parse\<close>: three attempts in a row, and a \<^verbatim>\<open>ValueError\<close>
  that collects the three messages when all fail. The text normalisation
  \<^verbatim>\<open>preprocess\<close> is a chain of regular-expression rewrites whose result only feeds the
  parser; it is a field of \<open>env\<close>. The caller's \<^verbatim>\<open>.subs(complexity_n, n)\<close> renames
  the variable, which \<open>SymN\<close> stands for in either case.
\<close>

definition replace_caret :: "string \<Rightarrow> string" where
  "replace_caret s = concat (map (\<lambda>c. if c = CHR ''^'' then ''**'' else [c]) s)"

definition parse_error :: "string \<Rightarrow> string \<Rightarrow> exn \<Rightarrow> exn \<Rightarrow> exn \<Rightarrow> exn" where
  "parse_error original processed e1 e2 e3 =
     Exn ''ValueError''
       (''Could not parse complexity expression: '' @ [CHR 0x27] @ original @ [CHR 0x27, CHR 0x0A]
        @ ''Preprocessed to: '' @ [CHR 0x27] @ processed @ [CHR 0x27, CHR 0x0A]
        @ ''Errors: '' @ ''Sympify: '' @ exn_msg e1 @ ''; '' @ ''Parse_expr: '' @ exn_msg e2
        @ ''; '' @ ''Basic: '' @ exn_msg e3)"

definition parse :: "env \<Rightarrow> string \<Rightarrow> exn + expr" where
  "parse E expr_str =
     (let processed = preprocess E expr_str in
      case sympify E processed of
        Inr e \<Rightarrow> Inr e
      | Inl e1 \<Rightarrow>
         (case parse_expr E processed of
            Inr e \<Rightarrow> Inr e
          | Inl e2 \<Rightarrow>
             (case sympify E (replace_caret expr_str) of
                Inr e \<Rightarrow> Inr e
              | Inl e3 \<Rightarrow> Inl (parse_error expr_str processed e1 e2 e3))))"

fun type_name :: "pyval \<Rightarrow> string" where
  "type_name PNone = ''NoneType''"
| "type_name (PBool b) = ''bool''"
| "type_name (PInt i) = ''int''"
| "type_name (PFloat x) = ''float''"
| "type_name (PStr s) = ''str''"
| "type_name (PList xs) = ''list''"
| "type_name (PDict kvs) = ''dict''"

definition attribute_error :: "pyval \<Rightarrow> string \<Rightarrow> exn" where
  "attribute_error v attr =
     Exn ''AttributeError''
       ([CHR 0x27] @ type_name v @ [CHR 0x27] @ '' object has no attribute ''
        @ [CHR 0x27] @ attr @ [CHR 0x27])"

text \<open>\<^verbatim>\<open>parse_complexity(x)\<close>: the first thing it does with \<open>x\<close> is \<^verbatim>\<open>x.strip()\<close>.\<close>

definition parse_complexity :: "env \<Rightarrow> pyval \<Rightarrow> exn + expr" where
  "parse_complexity E v =
     (case v of PStr s \<Rightarrow> parse E s | _ \<Rightarrow> Inl (attribute_error v ''strip''))"

section \<open>Dictionaries\<close>

type_synonym dict = "(key \<times> pyval) list"

text \<open>\<^verbatim>\<open>data.get(k, default)\<close> on a dictionary given by its items.\<close>

definition dget :: "dict \<Rightarrow> string \<Rightarrow> pyval \<Rightarrow> pyval" where
  "dget d k dflt = (case map_of d (KStr k) of Some v \<Rightarrow> v | None \<Rightarrow> dflt)"

definition items :: "pyval \<Rightarrow> exn + dict" where
  "items v = (case v of PDict kvs \<Rightarrow> Inr kvs | _ \<Rightarrow> Inl (attribute_error v ''items''))"

text \<open>What a \<^verbatim>\<open>for\<close> loop over the value visits.\<close>

fun key_value :: "key \<Rightarrow> pyval" where
  "key_value (KStr s) = PStr s"
| "key_value (KInt i) = PInt i"

definition py_iter :: "pyval \<Rightarrow> exn + pyval list" where
  "py_iter v =
     (case v of
        PList xs \<Rightarrow> Inr xs
      | PStr s \<Rightarrow> Inr (map (\<lambda>c. PStr [c]) s)
      | PDict kvs \<Rightarrow> Inr (map (key_value \<circ> fst) kvs)
      | _ \<Rightarrow> Inl (Exn ''TypeError'' ([CHR 0x27] @ type_name v @ [CHR 0x27] @ '' object is not iterable'')))"

fun int_of_key :: "key \<Rightarrow> exn + int" where
  "int_of_key (KStr s) = py_int s"
| "int_of_key (KInt i) = Inr i"

definition failure :: "string \<Rightarrow> dict" where
  "failure message = [(KStr ''success'', PBool False), (KStr ''error'', PStr message)]"

text \<open>
  \<^verbatim>\<open>init_conds[T(int(k))] = sympify(v)\<close> for every item: the right-hand side is
  evaluated first, a key that is already there keeps its place and takes the new value.
\<close>

fun build_init_conds :: "env \<Rightarrow> dict \<Rightarrow> (int \<times> expr) list \<Rightarrow> exn + (int \<times> expr) list" where
  "build_init_conds E [] init_conds = Inr init_conds"
| "build_init_conds E ((k, v) # kvs) init_conds =
     bnd (sympify_value E v) (\<lambda>x.
     bnd (int_of_key k) (\<lambda>i.
       build_init_conds E kvs (AList.update i x init_conds)))"

section \<open>Helpers of the divide-and-conquer analyzer\<close>

definition degree_candidates :: "pyval list" where
  "degree_candidates =
     [PInt 0, PFloat (Fin (1/2)), PInt 1, PFloat (Fin (3/2)), PInt 2, PFloat (Fin (5/2)),
      PInt 3, PInt 4, PInt 5]"

fun expr_of_number :: "pyval \<Rightarrow> expr" where
  "expr_of_number (PInt i) = Integer i"
| "expr_of_number (PFloat (Fin q)) = Float q"
| "expr_of_number v = Nan"

fun float_of_number :: "pyval \<Rightarrow> pyfloat" where
  "float_of_number (PInt i) = Fin (of_int i)"
| "float_of_number (PFloat x) = x"
| "float_of_number v = NaN"

fun degree_scan :: "env \<Rightarrow> expr \<Rightarrow> pyval list \<Rightarrow> exn + pyval option" where
  "degree_scan E e [] = Inr None"
| "degree_scan E e (d # ds) =
     bnd (limit E (Div e (Pwr SymN (expr_of_number d)))) (\<lambda>ratio.
       if ratio \<notin> {Integer 0, Oo, NegOo, Zoo, Nan}
       then bnd (is_constant E ratio) (\<lambda>c.
              if truthy c then Inr (Some d) else degree_scan E e ds)
       else degree_scan E e ds)"

definition get_polynomial_degree :: "env \<Rightarrow> expr \<Rightarrow> exn + pyval option" where
  "get_polynomial_degree E e =
     (case bnd (is_polynomial E e) (\<lambda>p.
             if p then bnd (poly_degree E e) (\<lambda>dg.
                       bnd (to_float E dg) (\<lambda>x. Inr (Some (PFloat x))))
             else degree_scan E e degree_candidates) of
        Inl _ \<Rightarrow> Inr None
      | Inr r \<Rightarrow> Inr r)"

text \<open>
  \<^verbatim>\<open>re.search(r"log\(n\)\*\*(\d+)", s)\<close>: the leftmost place where \<^verbatim>\<open>log(n)**\<close>
  is followed by a digit, and the longest run of digits there.
\<close>

fun search_log_power :: "string \<Rightarrow> string option" where
  "search_log_power [] = None"
| "search_log_power (c # cs) =
     (if starts_with ''log(n)**'' (c # cs) \<and> takeWhile is_digit (drop 8 (c # cs)) \<noteq> []
      then Some (takeWhile is_digit (drop 8 (c # cs)))
      else search_log_power cs)"

definition get_log_power :: "env \<Rightarrow> expr \<Rightarrow> exn + nat" where
  "get_log_power E e =
     (case bnd (has_log E e) (\<lambda>h.
             if \<not> h then Inr 0
             else let expr_str = str E e in
               case (if contains ''log(n)**'' expr_str then search_log_power expr_str else None) of
                 Some digits \<Rightarrow> Inr (nat_of_digits 0 digits)
               | None \<Rightarrow> if contains ''log(n)'' expr_str then Inr 1 else Inr 0) of
        Inl _ \<Rightarrow> Inr 0
      | Inr k \<Rightarrow> Inr k)"

section \<open>The divide-and-conquer analyzer\<close>

definition epsilon :: pyfloat where
  "epsilon = Fin (1/100)"

definition master_theorem :: "env \<Rightarrow> expr \<Rightarrow> expr \<Rightarrow> pyfloat \<Rightarrow> pyval \<Rightarrow> exn + dict" where
  "master_theorem E f_n critical_exp critical_exp_float f_degree =
     bnd (if fl_less (float_of_number f_degree) (fl_sub critical_exp_float epsilon)
          then Inr (''O(n^'' @ str E critical_exp @ '')'', 1)
          else if fl_less (fl_abs (fl_sub (float_of_number f_degree) critical_exp_float)) epsilon
          then bnd (get_log_power E f_n) (\<lambda>log_power.
                 if log_power = 0
                 then Inr (''O(n^'' @ str E critical_exp @ '' * log(n))'', 2)
                 else Inr (''O(n^'' @ str E critical_exp @ '' * log(n)^''
                           @ str_nat (log_power + 1) @ '')'', 2))
          else Inr (''O('' @ str E f_n @ '')'', 3))
       (\<lambda>(complexity, case_no). Inr
         [(KStr ''success'', PBool True),
          (KStr ''closed_form'', PNone),
          (KStr ''complexity'', PStr complexity),
          (KStr ''master_theorem_case'', PInt case_no),
          (KStr ''critical_exponent'', PStr (str E critical_exp)),
          (KStr ''f_degree'', f_degree),
          (KStr ''verified'', PBool True),
          (KStr ''error'', PNone)])"

definition akra_bazzi :: "env \<Rightarrow> expr \<Rightarrow> pyfloat \<Rightarrow> exn + dict" where
  "akra_bazzi E critical_exp critical_exp_float =
     (let p = critical_exp_float;
          complexity = ''O(n^'' @ format_float E 4 p @ '')''
      in Inr
         [(KStr ''success'', PBool True),
          (KStr ''closed_form'', PNone),
          (KStr ''complexity'', PStr complexity),
          (KStr ''method'', PStr ''akra_bazzi''),
          (KStr ''critical_exponent'', PStr (str E critical_exp)),
          (KStr ''verified'', PBool False),
          (KStr ''error'', PNone)])"

definition solve_divide_conquer :: "env \<Rightarrow> dict \<Rightarrow> exn + dict" where
  "solve_divide_conquer E data =
     (let a = dget data ''a'' (PInt 2);
          b = dget data ''b'' (PInt 2);
          f_n_str = dget data ''f_n'' (PStr ''n'')
      in case parse_complexity E f_n_str of
           Inl e \<Rightarrow> Inr (failure (''Invalid f(n): '' @ exn_msg e))
         | Inr f_n \<Rightarrow>
             bnd (sym_log E a b) (\<lambda>critical_exp.
             bnd (bnd (evalf E critical_exp) (to_float E)) (\<lambda>critical_exp_float.
             bnd (get_polynomial_degree E f_n) (\<lambda>f_degree.
               case (case f_degree of
                       Some d \<Rightarrow> master_theorem E f_n critical_exp critical_exp_float d
                     | None \<Rightarrow> akra_bazzi E critical_exp critical_exp_float) of
                 Inl e \<Rightarrow> Inr (failure (exn_msg e))
               | Inr r \<Rightarrow> Inr r))))"

section \<open>The recurrence verifier\<close>

text \<open>
  The loop over \<^verbatim>\<open>init_conds.items()\<close>: \<open>base_ok\<close> starts as \<^verbatim>\<open>True\<close> and a
  difference that is not the integer \<open>0\<close> after \<^verbatim>\<open>simplify\<close> sets it to \<^verbatim>\<open>False\<close>.
\<close>

definition base_case_entry :: "env \<Rightarrow> expr \<Rightarrow> expr \<Rightarrow> expr \<Rightarrow> pyval" where
  "base_case_entry E expected actual diff =
     PDict [(KStr ''expected'', PStr (str E expected)),
            (KStr ''actual'', PStr (str E actual)),
            (KStr ''match'', PBool (diff = Integer 0))]"

fun check_base_cases ::
  "env \<Rightarrow> expr \<Rightarrow> (int \<times> expr) list \<Rightarrow> bool \<Rightarrow> dict \<Rightarrow> exn + bool \<times> dict" where
  "check_base_cases E solution [] base_ok base_results = Inr (base_ok, base_results)"
| "check_base_cases E solution ((idx, expected) # rest) base_ok base_results =
     bnd (subs_n E solution (Integer idx)) (\<lambda>actual.
     bnd (simplify E (Sub actual expected)) (\<lambda>diff.
       check_base_cases E solution rest
         (if diff \<noteq> Integer 0 then False else base_ok)
         (AList.update (KInt idx) (base_case_entry E expected actual diff) base_results)))"

definition verify_recurrence :: "env \<Rightarrow> dict \<Rightarrow> exn + dict" where
  "verify_recurrence E data =
     (let recurrence_str = dget data ''recurrence'' (PStr []);
          solution_str = dget data ''solution'' (PStr []);
          base_cases = dget data ''base'' (PDict [])
      in case bnd (parse_complexity E solution_str) (\<lambda>solution.
              bnd (items base_cases) (\<lambda>kvs.
              bnd (build_init_conds E kvs []) (\<lambda>init_conds.
              bnd (check_base_cases E solution init_conds True []) (\<lambda>(base_ok, base_results).
              bnd (extract_complexity E solution) (\<lambda>complexity. Inr
                [(KStr ''success'', PBool True),
                 (KStr ''verified_base_cases'', PBool base_ok),
                 (KStr ''base_case_details'', PDict base_results),
                 (KStr ''complexity'', PStr complexity),
                 (KStr ''error'', PNone)]))))) of
           Inl e \<Rightarrow> Inr (failure (exn_msg e))
         | Inr r \<Rightarrow> Inr r)"

section \<open>The asymptotic comparator\<close>

definition compare_asymptotic :: "env \<Rightarrow> expr \<Rightarrow> expr \<Rightarrow> exn + string" where
  "compare_asymptotic E f g =
     (case bnd (ratio_limit E f g) (\<lambda>lm.
             if lm = Integer 0 then Inr ''f < g''
             else if lm \<in> {Oo, Zoo, NegOo} then Inr ''f > g''
             else if finite_positive E lm then Inr ''f ~ g''
             else bnd (ratio_limit E g f) (\<lambda>inv_lim.
                    if inv_lim = Integer 0 then Inr ''f > g''
                    else if inv_lim \<in> {Oo, Zoo} then Inr ''f < g''
                    else Inr ''?'')) of
        Inl _ \<Rightarrow> Inr ''?''
      | Inr r \<Rightarrow> Inr r)"

definition verify_big_o :: "env \<Rightarrow> expr \<Rightarrow> expr \<Rightarrow> exn + bool \<times> pyfloat option" where
  "verify_big_o E f g =
     (case bnd (ratio_limit E f g) (\<lambda>lm.
             if truthy (is_number E lm) \<and> truthy (is_finite E lm) \<and> truthy (is_nonnegative E lm)
             then (if lm \<noteq> Integer 0
                   then bnd (to_float E lm) (\<lambda>c. Inr (True, Some c))
                   else Inr (True, Some (Fin 0)))
             else if lm = Integer 0 then Inr (True, Some (Fin 0))
             else Inr (False, None)) of
        Inl _ \<Rightarrow> Inr (False, None)
      | Inr r \<Rightarrow> Inr r)"

definition verify_big_omega :: "env \<Rightarrow> expr \<Rightarrow> expr \<Rightarrow> exn + bool \<times> pyfloat option" where
  "verify_big_omega E f g =
     (case bnd (ratio_limit E f g) (\<lambda>lm.
             if lm \<in> {Oo, Zoo} then Inr (True, Some PInf)
             else if truthy (is_number E lm) \<and> truthy (is_positive E lm)
             then bnd (to_float E lm) (\<lambda>c. Inr (True, Some c))
             else Inr (False, None)) of
        Inl _ \<Rightarrow> Inr (False, None)
      | Inr r \<Rightarrow> Inr r)"

fun fl_scale :: "pyfloat \<Rightarrow> rat \<Rightarrow> pyfloat" where
  "fl_scale (Fin c) q = Fin (c * q)"
| "fl_scale x q = x"

definition verify_big_theta ::
  "env \<Rightarrow> expr \<Rightarrow> expr \<Rightarrow> exn + bool \<times> (pyfloat \<times> pyfloat) option" where
  "verify_big_theta E f g =
     (case bnd (ratio_limit E f g) (\<lambda>lm.
             if finite_positive E lm
             then bnd (to_float E lm) (\<lambda>c. Inr (True, Some (fl_scale c (1/2), fl_scale c 2)))
             else Inr (False, None)) of
        Inl _ \<Rightarrow> Inr (False, None)
      | Inr r \<Rightarrow> Inr r)"

definition float_or_none :: "pyfloat option \<Rightarrow> pyval" where
  "float_or_none c = (case c of Some x \<Rightarrow> PFloat x | None \<Rightarrow> PNone)"

definition pair_or_none :: "(pyfloat \<times> pyfloat) option \<Rightarrow> pyval" where
  "pair_or_none c = (case c of Some (x, y) \<Rightarrow> PList [PFloat x, PFloat y] | None \<Rightarrow> PNone)"

definition compare_complexities :: "env \<Rightarrow> dict \<Rightarrow> exn + dict" where
  "compare_complexities E data =
     (let f_str = dget data ''f'' (PStr ''n'');
          g_str = dget data ''g'' (PStr ''n'');
          bound_type = dget data ''bound_type'' (PStr ''Theta'')
      in case bnd (parse_complexity E f_str) (\<lambda>f.
              bnd (parse_complexity E g_str) (\<lambda>g.
              bnd (compare_asymptotic E f g) (\<lambda>comparison.
                if bound_type = PStr ''O''
                then bnd (verify_big_o E f g) (\<lambda>(holds, constant).
                     bnd (limit E (Div f g)) (\<lambda>lm. Inr
                       [(KStr ''success'', PBool True),
                        (KStr ''bound_type'', PStr ''O''),
                        (KStr ''holds'', PBool holds),
                        (KStr ''constant'', float_or_none constant),
                        (KStr ''comparison'', PStr comparison),
                        (KStr ''limit_ratio'', PStr (str E lm))]))
                else if bound_type = PStr ''Omega''
                then bnd (verify_big_omega E f g) (\<lambda>(holds, constant).
                     bnd (limit E (Div f g)) (\<lambda>lm. Inr
                       [(KStr ''success'', PBool True),
                        (KStr ''bound_type'', PStr ''Omega''),
                        (KStr ''holds'', PBool holds),
                        (KStr ''constant'', float_or_none constant),
                        (KStr ''comparison'', PStr comparison),
                        (KStr ''limit_ratio'', PStr (str E lm))]))
                else bnd (verify_big_theta E f g) (\<lambda>(holds, constants).
                     bnd (limit E (Div f g)) (\<lambda>lm. Inr
                       [(KStr ''success'', PBool True),
                        (KStr ''bound_type'', PStr ''Theta''),
                        (KStr ''holds'', PBool holds),
                        (KStr ''constants'', pair_or_none constants),
                        (KStr ''comparison'', PStr comparison),
                        (KStr ''limit_ratio'', PStr (str E lm))]))))) of
           Inl e \<Rightarrow> Inr (failure (exn_msg e))
         | Inr r \<Rightarrow> Inr r)"

section \<open>The linear recurrence solver\<close>

text \<open>
  The numeric check. \<open>order\<close> is \<^verbatim>\<open>len(init_conds)\<close>; the outer loop runs over
  \<^verbatim>\<open>range(order + 1, order + 10)\<close>, the inner one over \<^verbatim>\<open>range(order + 1)\<close>.
\<close>

fun substitute_terms :: "env \<Rightarrow> expr \<Rightarrow> int \<Rightarrow> nat list \<Rightarrow> expr \<Rightarrow> exn + expr" where
  "substitute_terms E solution test_n [] check = Inr check"
| "substitute_terms E solution test_n (offset # offsets) check =
     bnd (subs_n E solution (Integer (test_n - int offset))) (\<lambda>t_val.
     bnd (subs_T E check (AppT (Sub SymN (Integer (int offset)))) t_val) (\<lambda>check'.
       substitute_terms E solution test_n offsets check'))"

definition tolerance :: pyfloat where
  "tolerance = Fin (1 / 10 ^ 10)"

fun trial_loop :: "env \<Rightarrow> expr \<Rightarrow> expr \<Rightarrow> nat \<Rightarrow> nat list \<Rightarrow> exn + bool" where
  "trial_loop E solution recurrence_eq order [] = Inr True"
| "trial_loop E solution recurrence_eq order (test_n # rest) =
     bnd (substitute_terms E solution (int test_n) [0 ..< order + 1] recurrence_eq) (\<lambda>check.
     bnd (subs_n E check (Integer (int test_n))) (\<lambda>check'.
     bnd (simplify E check') (\<lambda>result.
       if result \<noteq> Integer 0
       then bnd (abs_complex_N E result) (\<lambda>magnitude.
              if fl_less tolerance magnitude then Inr False
              else trial_loop E solution recurrence_eq order rest)
       else trial_loop E solution recurrence_eq order rest)))"

definition trial_indices :: "nat \<Rightarrow> nat list" where
  "trial_indices order = [order + 1 ..< order + 10]"

definition verify_solution_numerically ::
  "env \<Rightarrow> expr \<Rightarrow> expr \<Rightarrow> (int \<times> expr) list \<Rightarrow> exn + bool" where
  "verify_solution_numerically E solution recurrence_eq init_conds =
     (let order = length init_conds in
      case trial_loop E solution recurrence_eq order (trial_indices order) of
        Inl _ \<Rightarrow> Inr False
      | Inr ok \<Rightarrow> Inr ok)"

text \<open>\<^verbatim>\<open>recurrence_eq -= c * T(n - 1 - i)\<close> for \<open>i, c\<close> in \<^verbatim>\<open>enumerate(coeffs)\<close>.\<close>

fun build_recurrence :: "env \<Rightarrow> expr \<Rightarrow> nat \<Rightarrow> pyval list \<Rightarrow> exn + expr" where
  "build_recurrence E recurrence_eq i [] = Inr recurrence_eq"
| "build_recurrence E recurrence_eq i (c # cs) =
     bnd (rmul E c (AppT (Sub (Sub SymN (Integer 1)) (Integer (int i))))) (\<lambda>term.
       build_recurrence E (Sub recurrence_eq term) (Suc i) cs)"

definition solve_linear_recurrence :: "env \<Rightarrow> dict \<Rightarrow> exn + dict" where
  "solve_linear_recurrence E data =
     (let coeffs = dget data ''coeffs'' (PList [PInt 1]);
          base_cases = dget data ''base'' (PDict [(KStr ''0'', PInt 0)]);
          f_n_str = dget data ''f_n'' (PStr ''0'')
      in case parse_complexity E f_n_str of
           Inl e \<Rightarrow> Inr (failure (''Invalid f(n): '' @ exn_msg e))
         | Inr f_n \<Rightarrow>
             bnd (py_iter coeffs) (\<lambda>cs.
             bnd (build_recurrence E (Sub (AppT SymN) f_n) 0 cs) (\<lambda>recurrence_eq.
             bnd (items base_cases) (\<lambda>kvs.
             bnd (build_init_conds E kvs []) (\<lambda>init_conds.
               case bnd (rsolve E recurrence_eq init_conds) (\<lambda>sol.
                      case sol of
                        None \<Rightarrow> Inr (failure ''rsolve returned None - recurrence may be unsolvable'')
                      | Some solution0 \<Rightarrow>
                          bnd (simplify E solution0) (\<lambda>solution.
                          bnd (extract_complexity E solution) (\<lambda>complexity.
                          bnd (verify_solution_numerically E solution recurrence_eq init_conds)
                            (\<lambda>verified. Inr
                              [(KStr ''success'', PBool True),
                               (KStr ''closed_form'', PStr (str E solution)),
                               (KStr ''complexity'', PStr complexity),
                               (KStr ''latex'', PStr (latex E solution)),
                               (KStr ''verified'', PBool verified),
                               (KStr ''error'', PNone)])))) of
                 Inl e \<Rightarrow> Inr (failure (exn_msg e))
               | Inr r \<Rightarrow> Inr r)))))"

section \<open>The entry point\<close>

text \<open>
  \<^verbatim>\<open>main\<close> prints one JSON object, or ends in an exception nobody caught (Python
  then prints a traceback and no JSON at all). Only \<^verbatim>\<open>json.JSONDecodeError\<close> is
  caught around the decoding; nothing is caught around the dispatch.
\<close>

datatype outcome = Printed dict | Uncaught exn

definition dispatch :: "env \<Rightarrow> pyval \<Rightarrow> exn + dict" where
  "dispatch E input_data =
     (case input_data of
        PDict data \<Rightarrow>
          (let request_type = dget data ''type'' (PStr ''linear'') in
           if request_type = PStr ''linear'' then solve_linear_recurrence E data
           else if request_type = PStr ''divide_conquer'' then solve_divide_conquer E data
           else if request_type = PStr ''verify'' then verify_recurrence E data
           else if request_type = PStr ''compare'' then compare_complexities E data
           else Inr (failure (''Unknown type: '' @ py_str E request_type)))
      | _ \<Rightarrow> Inl (attribute_error input_data ''get''))"

definition main :: "env \<Rightarrow> string \<Rightarrow> outcome" where
  "main E stdin =
     (case json_loads E stdin of
        Inl e \<Rightarrow>
          if exn_class e = ''JSONDecodeError''
          then Printed (failure (''Invalid JSON: '' @ exn_msg e))
          else Uncaught e
      | Inr input_data \<Rightarrow>
          (case dispatch E input_data of
             Inl e \<Rightarrow> Uncaught e
           | Inr result \<Rightarrow> Printed result))"

section \<open>A small engine instance\<close>

text \<open>
  The theorems below hold for every \<open>env\<close>. To run the program on concrete requests
  they are applied to \<open>demo\<close>, an engine that knows a few expressions: it folds integer
  arithmetic, substitutes structurally, compares the growth of the expressions listed in
  \<open>growth_table\<close> and raises \<^verbatim>\<open>NotImplementedError\<close> on everything else. On the
  requests used below its answers are the exact ones.
\<close>

definition fib_closed :: expr where
  "fib_closed = Other ''sqrt(5)*((1/2 + sqrt(5)/2)**n - (1/2 - sqrt(5)/2)**n)/5''"

definition phi :: expr where
  "phi = Div (Add (Integer 1) (Sqrt (Integer 5))) (Integer 2)"

definition not_implemented :: exn where
  "not_implemented = Exn ''NotImplementedError'' ''outside the instance''"

fun number_expr :: "expr \<Rightarrow> bool" where
  "number_expr (Integer i) = True"
| "number_expr (Rational p q) = True"
| "number_expr (Float q) = True"
| "number_expr Oo = True"
| "number_expr NegOo = True"
| "number_expr Zoo = True"
| "number_expr Nan = True"
| "number_expr (Add a b) = (number_expr a \<and> number_expr b)"
| "number_expr (Sub a b) = (number_expr a \<and> number_expr b)"
| "number_expr (Mul a b) = (number_expr a \<and> number_expr b)"
| "number_expr (Div a b) = (number_expr a \<and> number_expr b)"
| "number_expr (Pwr a b) = (number_expr a \<and> number_expr b)"
| "number_expr (Log a) = number_expr a"
| "number_expr (Sqrt a) = number_expr a"
| "number_expr (Abs a) = number_expr a"
| "number_expr (Factorial a) = number_expr a"
| "number_expr e = False"

fun positive_number :: "expr \<Rightarrow> bool" where
  "positive_number (Integer i) = (0 < i)"
| "positive_number (Rational p q) = (0 < p \<and> 0 < q)"
| "positive_number (Float q) = (0 < q)"
| "positive_number Oo = True"
| "positive_number (Add a b) = (positive_number a \<and> positive_number b)"
| "positive_number (Mul a b) = (positive_number a \<and> positive_number b)"
| "positive_number (Div a b) = (positive_number a \<and> positive_number b)"
| "positive_number (Sqrt a) = positive_number a"
| "positive_number e = False"

fun finite_number :: "expr \<Rightarrow> bool" where
  "finite_number (Integer i) = True"
| "finite_number (Rational p q) = (q \<noteq> 0)"
| "finite_number (Float q) = True"
| "finite_number (Add a b) = (finite_number a \<and> finite_number b)"
| "finite_number (Mul a b) = (finite_number a \<and> finite_number b)"
| "finite_number (Div a b) = (finite_number a \<and> positive_number b)"
| "finite_number (Sqrt a) = finite_number a"
| "finite_number e = False"

fun int_value :: "expr \<Rightarrow> int option" where
  "int_value (Integer i) = Some i"
| "int_value (Add a b) =
     (case (int_value a, int_value b) of (Some x, Some y) \<Rightarrow> Some (x + y) | _ \<Rightarrow> None)"
| "int_value (Sub a b) =
     (case (int_value a, int_value b) of (Some x, Some y) \<Rightarrow> Some (x - y) | _ \<Rightarrow> None)"
| "int_value (Mul a b) =
     (case (int_value a, int_value b) of (Some x, Some y) \<Rightarrow> Some (x * y) | _ \<Rightarrow> None)"
| "int_value e = None"

fun fib :: "nat \<Rightarrow> int" where
  "fib 0 = 0"
| "fib (Suc 0) = 1"
| "fib (Suc (Suc k)) = fib k + fib (Suc k)"

fun subst_n :: "expr \<Rightarrow> expr \<Rightarrow> expr" where
  "subst_n v SymN = v"
| "subst_n v (Add a b) = Add (subst_n v a) (subst_n v b)"
| "subst_n v (Sub a b) = Sub (subst_n v a) (subst_n v b)"
| "subst_n v (Mul a b) = Mul (subst_n v a) (subst_n v b)"
| "subst_n v (Div a b) = Div (subst_n v a) (subst_n v b)"
| "subst_n v (Pwr a b) = Pwr (subst_n v a) (subst_n v b)"
| "subst_n v (Log a) = Log (subst_n v a)"
| "subst_n v (Sqrt a) = Sqrt (subst_n v a)"
| "subst_n v (Abs a) = Abs (subst_n v a)"
| "subst_n v (Factorial a) = Factorial (subst_n v a)"
| "subst_n v (AppT a) = AppT (subst_n v a)"
| "subst_n v e = e"

definition demo_subs_n :: "expr \<Rightarrow> expr \<Rightarrow> exn + expr" where
  "demo_subs_n e v =
     (if e = fib_closed
      then (case v of
              Integer k \<Rightarrow> if 0 \<le> k then Inr (Integer (fib (nat k))) else Inl not_implemented
            | _ \<Rightarrow> Inl not_implemented)
      else Inr (subst_n v e))"

text \<open>The \<open>k\<close> of an argument \<open>n - k\<close>.\<close>

fun shift_of :: "expr \<Rightarrow> int option" where
  "shift_of SymN = Some 0"
| "shift_of (Sub a (Integer k)) = map_option (\<lambda>j. j + k) (shift_of a)"
| "shift_of e = None"

fun replace_T :: "int \<Rightarrow> expr \<Rightarrow> expr \<Rightarrow> expr" where
  "replace_T k v (AppT a) = (if shift_of a = Some k then v else AppT a)"
| "replace_T k v (Add a b) = Add (replace_T k v a) (replace_T k v b)"
| "replace_T k v (Sub a b) = Sub (replace_T k v a) (replace_T k v b)"
| "replace_T k v (Mul a b) = Mul (replace_T k v a) (replace_T k v b)"
| "replace_T k v (Div a b) = Div (replace_T k v a) (replace_T k v b)"
| "replace_T k v e = e"

definition demo_subs_T :: "expr \<Rightarrow> expr \<Rightarrow> expr \<Rightarrow> exn + expr" where
  "demo_subs_T e pattern v =
     (case pattern of
        AppT a \<Rightarrow> (case shift_of a of Some k \<Rightarrow> Inr (replace_T k v e) | None \<Rightarrow> Inl not_implemented)
      | _ \<Rightarrow> Inl not_implemented)"

definition demo_simplify :: "expr \<Rightarrow> exn + expr" where
  "demo_simplify e = Inr (case int_value e of Some i \<Rightarrow> Integer i | None \<Rightarrow> e)"

text \<open>
  Growth, coarsest first: expressions of the same rank have a finite positive ratio in the
  limit, a lower rank over a higher one tends to \<open>0\<close>, a higher one over a lower one to
  infinity.
\<close>

definition growth_table :: "(expr \<times> nat) list" where
  "growth_table =
    [(Integer 1, 0), (phi, 0), (Pwr SymN (Integer 0), 0),
     (Log SymN, 2),
     (Pwr (Log SymN) (Integer 2), 4),
     (Sqrt SymN, 6), (Pwr SymN (Float (1/2)), 6),
     (SymN, 8), (Pwr SymN (Integer 1), 8), (Add SymN (Pwr (Log SymN) (Integer 2)), 8),
     (Add SymN (Div (Integer 1) (Log SymN)), 8),
     (Mul SymN (Log SymN), 10),
     (Mul SymN (Pwr (Log SymN) (Integer 2)), 12),
     (Pwr SymN (Rational 3 2), 14), (Pwr SymN (Float (3/2)), 14),
     (Pwr SymN (Integer 2), 16),
     (Mul (Pwr SymN (Integer 2)) (Log SymN), 18),
     (Pwr SymN (Float (5/2)), 19),
     (Pwr SymN (Integer 3), 20),
     (Pwr SymN (Integer 4), 22),
     (Pwr SymN (Integer 5), 23),
     (Pwr (Rational 3 2) SymN, 24),
     (Pwr phi SymN, 26), (fib_closed, 26),
     (Pwr (Integer 2) SymN, 28),
     (Pwr (Integer 3) SymN, 29),
     (Factorial SymN, 30)]"

definition growth_rank :: "expr \<Rightarrow> nat option" where
  "growth_rank e = map_of growth_table e"

text \<open>The limit of \<open>x / y\<close> for two expressions of the same rank.\<close>

definition leading_ratio :: "expr \<Rightarrow> expr \<Rightarrow> expr" where
  "leading_ratio x y =
     (if x = y then Integer 1
      else if x = fib_closed then Div (Sqrt (Integer 5)) (Integer 5)
      else if number_expr x \<and> number_expr y then Div x y
      else Integer 1)"

definition demo_limit :: "expr \<Rightarrow> exn + expr" where
  "demo_limit e =
     (case e of
        Div (Log (Abs x)) (Log SymN) \<Rightarrow>
          (case growth_rank x of
             Some r \<Rightarrow> if 24 \<le> r then Inr Oo else Inl not_implemented
           | None \<Rightarrow> Inl not_implemented)
      | Div x y \<Rightarrow>
          (case (growth_rank x, growth_rank y) of
             (Some r, Some s) \<Rightarrow>
               Inr (if r < s then Integer 0 else if s < r then Oo else leading_ratio x y)
           | _ \<Rightarrow> Inl not_implemented)
      | _ \<Rightarrow> if number_expr e then Inr e else Inl not_implemented)"

fun monomial_degree :: "expr \<Rightarrow> nat option" where
  "monomial_degree SymN = Some 1"
| "monomial_degree (Pwr SymN (Integer k)) = (if 0 \<le> k then Some (nat k) else None)"
| "monomial_degree (Mul a b) =
     (case (monomial_degree a, monomial_degree b) of
        (Some x, Some y) \<Rightarrow> Some (x + y) | _ \<Rightarrow> None)"
| "monomial_degree e = (if finite_number e \<and> e \<noteq> Integer 0 then Some 0 else None)"

definition demo_is_polynomial :: "expr \<Rightarrow> exn + bool" where
  "demo_is_polynomial e =
     (if e = Integer 0 \<or> monomial_degree e \<noteq> None then Inr True
      else if growth_rank e \<noteq> None then Inr False
      else Inl not_implemented)"

definition demo_poly_degree :: "expr \<Rightarrow> exn + expr" where
  "demo_poly_degree e =
     (if e = Integer 0 then Inr NegOo
      else case monomial_degree e of
        Some d \<Rightarrow> Inr (Integer (int d))
      | None \<Rightarrow> Inl (Exn ''PolynomialError'' ''not a polynomial''))"

definition demo_LT :: "expr \<Rightarrow> exn + expr" where
  "demo_LT e =
     (if monomial_degree e \<noteq> None then Inr e
      else if growth_rank e \<noteq> None
      then Inl (Exn ''PolynomialError'' ''contains an element of the set of generators.'')
      else Inl not_implemented)"

fun mentions_log :: "expr \<Rightarrow> bool" where
  "mentions_log (Log a) = True"
| "mentions_log (Add a b) = (mentions_log a \<or> mentions_log b)"
| "mentions_log (Sub a b) = (mentions_log a \<or> mentions_log b)"
| "mentions_log (Mul a b) = (mentions_log a \<or> mentions_log b)"
| "mentions_log (Div a b) = (mentions_log a \<or> mentions_log b)"
| "mentions_log (Pwr a b) = (mentions_log a \<or> mentions_log b)"
| "mentions_log (Sqrt a) = mentions_log a"
| "mentions_log (Abs a) = mentions_log a"
| "mentions_log (Factorial a) = mentions_log a"
| "mentions_log (AppT a) = mentions_log a"
| "mentions_log e = False"

definition demo_to_float :: "expr \<Rightarrow> exn + pyfloat" where
  "demo_to_float e =
     (case e of
        Integer i \<Rightarrow> Inr (Fin (of_int i))
      | Float q \<Rightarrow> Inr (Fin q)
      | Oo \<Rightarrow> Inr PInf
      | NegOo \<Rightarrow> Inr NInf
      | Nan \<Rightarrow> Inr NaN
      | _ \<Rightarrow> Inl not_implemented)"

definition demo_abs_complex_N :: "expr \<Rightarrow> exn + pyfloat" where
  "demo_abs_complex_N e =
     (case e of
        Integer i \<Rightarrow> Inr (Fin \<bar>of_int i\<bar>)
      | _ \<Rightarrow> Inl (Exn ''TypeError'' ''Cannot convert expression to float''))"

text \<open>\<^verbatim>\<open>log(a, b)\<close> for integers: the exponent when \<open>a\<close> is a power of \<open>b\<close>.\<close>

definition demo_sym_log :: "pyval \<Rightarrow> pyval \<Rightarrow> exn + expr" where
  "demo_sym_log a b =
     (case (a, b) of
        (PInt x, PInt y) \<Rightarrow>
          if 0 < x \<and> 1 < y
          then (case find (\<lambda>k. y ^ k = x) [0 ..< Suc (nat x)] of
                  Some k \<Rightarrow> Inr (Integer (int k))
                | None \<Rightarrow> Inr (Div (Log (Integer x)) (Log (Integer y))))
          else Inl not_implemented
      | _ \<Rightarrow> Inl not_implemented)"

definition demo_sympify :: "string \<Rightarrow> exn + expr" where
  "demo_sympify s =
     (if s = ''0'' then Inr (Integer 0)
      else if s = ''1'' then Inr (Integer 1)
      else if s = ''n'' then Inr SymN
      else if s = ''n**2'' then Inr (Pwr SymN (Integer 2))
      else if s = ''n*log(n)'' then Inr (Mul SymN (Log SymN))
      else if s = ''n + log(n)**2'' then Inr (Add SymN (Pwr (Log SymN) (Integer 2)))
      else if s = ''n + 1/log(n)'' then Inr (Add SymN (Div (Integer 1) (Log SymN)))
      else if s = ''3**n'' then Inr (Pwr (Integer 3) SymN)
      else Inl not_implemented)"

definition demo_sympify_value :: "pyval \<Rightarrow> exn + expr" where
  "demo_sympify_value v =
     (case v of
        PInt i \<Rightarrow> Inr (Integer i)
      | PFloat (Fin q) \<Rightarrow> Inr (Float q)
      | PStr s \<Rightarrow> demo_sympify s
      | _ \<Rightarrow> Inl not_implemented)"

definition demo_rmul :: "pyval \<Rightarrow> expr \<Rightarrow> exn + expr" where
  "demo_rmul c t =
     (case c of
        PInt i \<Rightarrow> Inr (Mul (Integer i) t)
      | PBool b \<Rightarrow> Inr (Mul (Integer (if b then 1 else 0)) t)
      | PFloat (Fin q) \<Rightarrow> Inr (Mul (Float q) t)
      | _ \<Rightarrow> Inl (Exn ''TypeError'' ''unsupported operand type(s) for *''))"

text \<open>
  \<^verbatim>\<open>rsolve\<close> on three recurrences: \<open>T(n) = T(n-1) + T(n-2)\<close> from \<open>0, 1\<close>,
  \<open>T(n) = T(n-1)\<close> from \<open>T(0) = 0\<close>, and \<open>T(n) = T(n-1) + 1\<close> from \<open>T(0) = 0\<close>
  (with or without the redundant \<open>T(1) = 1\<close>).
\<close>

definition fib_equation :: expr where
  "fib_equation =
     Sub (Sub (Sub (AppT SymN) (Integer 0))
              (Mul (Integer 1) (AppT (Sub (Sub SymN (Integer 1)) (Integer 0)))))
         (Mul (Integer 1) (AppT (Sub (Sub SymN (Integer 1)) (Integer 1))))"

definition counter_equation :: expr where
  "counter_equation =
     Sub (Sub (AppT SymN) (Integer 1))
         (Mul (Integer 1) (AppT (Sub (Sub SymN (Integer 1)) (Integer 0))))"

definition zero_equation :: expr where
  "zero_equation =
     Sub (Sub (AppT SymN) (Integer 0))
         (Mul (Integer 1) (AppT (Sub (Sub SymN (Integer 1)) (Integer 0))))"

definition demo_rsolve :: "expr \<Rightarrow> (int \<times> expr) list \<Rightarrow> exn + expr option" where
  "demo_rsolve eq init_conds =
     (if eq = fib_equation \<and> init_conds = [(0, Integer 0), (1, Integer 1)]
      then Inr (Some fib_closed)
      else if eq = zero_equation \<and> init_conds = [(0, Integer 0)]
      then Inr (Some (Integer 0))
      else if eq = counter_equation
              \<and> (init_conds = [(0, Integer 0)] \<or> init_conds = [(0, Integer 0), (1, Integer 1)])
      then Inr (Some SymN)
      else Inl not_implemented)"

text \<open>A printer with the parentheses precedence asks for.\<close>

fun show_expr :: "nat \<Rightarrow> expr \<Rightarrow> string" where
  "show_expr p (Integer i) = str_int i"
| "show_expr p (Rational a b) = str_int a @ ''/'' @ str_int b"
| "show_expr p (Float q) = ''<float>''"
| "show_expr p SymN = ''n''"
| "show_expr p Oo = ''oo''"
| "show_expr p NegOo = ''-oo''"
| "show_expr p Zoo = ''zoo''"
| "show_expr p Nan = ''nan''"
| "show_expr p (Add a b) =
     (if 1 < p then ''('' else []) @ show_expr 1 a @ '' + '' @ show_expr 1 b
     @ (if 1 < p then '')'' else [])"
| "show_expr p (Sub a b) =
     (if 1 < p then ''('' else []) @ show_expr 1 a @ '' - '' @ show_expr 2 b
     @ (if 1 < p then '')'' else [])"
| "show_expr p (Mul a b) =
     (if 2 < p then ''('' else []) @ show_expr 2 a @ ''*'' @ show_expr 2 b
     @ (if 2 < p then '')'' else [])"
| "show_expr p (Div a b) =
     (if 2 < p then ''('' else []) @ show_expr 2 a @ ''/'' @ show_expr 3 b
     @ (if 2 < p then '')'' else [])"
| "show_expr p (Pwr a b) =
     (if 3 < p then ''('' else []) @ show_expr 4 a @ ''**'' @ show_expr 4 b
     @ (if 3 < p then '')'' else [])"
| "show_expr p (Log a) = ''log('' @ show_expr 0 a @ '')''"
| "show_expr p (Sqrt a) = ''sqrt('' @ show_expr 0 a @ '')''"
| "show_expr p (Abs a) = ''Abs('' @ show_expr 0 a @ '')''"
| "show_expr p (Factorial a) = ''factorial('' @ show_expr 0 a @ '')''"
| "show_expr p (AppT a) = ''T('' @ show_expr 0 a @ '')''"
| "show_expr p (Other s) = s"

text \<open>\<^verbatim>\<open>format(x, ".kf")\<close> on the exact value: round half to even, \<open>k\<close> decimals.\<close>

definition round_half_even :: "rat \<Rightarrow> int" where
  "round_half_even x =
     (let f = \<lfloor>x\<rfloor>; d = x - of_int f
      in if d < 1/2 then f else if 1/2 < d then f + 1 else if even f then f else f + 1)"

definition pad_zeros :: "nat \<Rightarrow> string \<Rightarrow> string" where
  "pad_zeros k s = replicate (k - length s) (CHR ''0'') @ s"

definition demo_format_float :: "nat \<Rightarrow> pyfloat \<Rightarrow> string" where
  "demo_format_float k x =
     (case x of
        Fin q \<Rightarrow>
          (let m = nat (round_half_even (\<bar>q\<bar> * 10 ^ k))
           in (if q < 0 then ''-'' else []) @ str_nat (m div 10 ^ k) @ ''.''
              @ pad_zeros k (str_nat (m mod 10 ^ k)))
      | PInf \<Rightarrow> ''inf''
      | NInf \<Rightarrow> ''-inf''
      | NaN \<Rightarrow> ''nan'')"

definition demo_py_str :: "pyval \<Rightarrow> string" where
  "demo_py_str v =
     (case v of PStr s \<Rightarrow> s | PInt i \<Rightarrow> str_int i | PNone \<Rightarrow> ''None''
      | PBool b \<Rightarrow> (if b then ''True'' else ''False'') | _ \<Rightarrow> ''<'' @ type_name v @ ''>'')"

text \<open>\<^verbatim>\<open>json.loads\<close> on the request texts used below.\<close>

definition bad_key_request :: string where
  "bad_key_request = ''{\"type\": \"linear\", \"base\": {\"x\": 0}}''"

definition demo_json_loads :: "string \<Rightarrow> exn + pyval" where
  "demo_json_loads s =
     (if s = bad_key_request
      then Inr (PDict [(KStr ''type'', PStr ''linear''),
                       (KStr ''base'', PDict [(KStr ''x'', PInt 0)])])
      else if s = ''{}'' then Inr (PDict [])
      else if s = [] then Inl (Exn ''JSONDecodeError'' ''Expecting value: line 1 column 1 (char 0)'')
      else Inl not_implemented)"

definition demo :: env where
  "demo = \<lparr>
     json_loads = demo_json_loads,
     py_str = demo_py_str,
     format_float = demo_format_float,
     preprocess = (\<lambda>s. replace_caret (strip s)),
     sympify = demo_sympify,
     parse_expr = demo_sympify,
     sympify_value = demo_sympify_value,
     rmul = demo_rmul,
     rsolve = demo_rsolve,
     simplify = demo_simplify,
     limit = demo_limit,
     is_constant = (\<lambda>e. Inr (Some (number_expr e))),
     is_number = (\<lambda>e. Some (number_expr e)),
     is_positive = (\<lambda>e. Some (positive_number e)),
     is_nonnegative = (\<lambda>e. Some (positive_number e \<or> e = Integer 0)),
     is_finite = (\<lambda>e. Some (finite_number e)),
     is_polynomial = demo_is_polynomial,
     poly_degree = demo_poly_degree,
     has_log = (\<lambda>e. Inr (mentions_log e)),
     to_float = demo_to_float,
     evalf = Inr,
     sym_log = demo_sym_log,
     subs_n = demo_subs_n,
     subs_T = demo_subs_T,
     abs_complex_N = demo_abs_complex_N,
     LT = demo_LT,
     str = show_expr 0,
     latex = show_expr 0 \<rparr>"

section \<open>Notions the statements use\<close>

text \<open>
  The ladder of the design: the sixteen growth functions in increasing order. It is the
  list of candidate expressions of \<open>extract_complexity\<close>, except that the rung labelled
  \<^verbatim>\<open>O(phi^n)\<close> is the function \<open>phi^n\<close>; the candidate the program tests under that
  label is the constant \<open>phi\<close>.
\<close>

definition ladder :: "expr list" where
  "ladder = (map fst candidates)[13 := Pwr phi SymN]"

definition labels :: "string list" where
  "labels = map snd candidates"

text \<open>The engine finds a finite positive limit for \<open>f / g\<close>.\<close>

definition has_positive_limit :: "env \<Rightarrow> expr \<Rightarrow> expr \<Rightarrow> bool" where
  "has_positive_limit E f g =
     (case ratio_limit E f g of Inr lm \<Rightarrow> finite_positive E lm | Inl _ \<Rightarrow> False)"

text \<open>
  Rung \<open>j\<close> of the ladder over candidate \<open>i\<close> of the program has a finite positive limit:
  the two are the same function, or the candidate is the constant \<open>phi\<close> and the rung
  is the constant \<open>1\<close>.
\<close>

definition same_growth :: "nat \<Rightarrow> nat \<Rightarrow> bool" where
  "same_growth i j = (if i = 13 then j = 0 else i = j)"

text \<open>
  What the engine's contract (exact limits) gives on the ladder: it finds a finite
  positive ratio limit for exactly the pairs that have one; the ratio of a lower rung to
  a higher one has limit \<open>0\<close>, simplified or not, and \<open>0\<close> is not positive; no rung
  but the first is a constant; and for \<open>phi^n\<close> it finds no finite degree, and the text of its leading
  term is not a label.
\<close>

definition ladder_accurate :: "env \<Rightarrow> bool" where
  "ladder_accurate E =
     (list_all (\<lambda>j. list_all (\<lambda>i.
          has_positive_limit E (ladder ! j) (fst (candidates ! i)) = same_growth i j)
          [0 ..< 16]) [0 ..< 16]
      \<and> list_all (\<lambda>j. list_all (\<lambda>i.
          ratio_limit E (ladder ! i) (ladder ! j) = Inr (Integer 0)) [0 ..< j]) [0 ..< 16]
      \<and> list_all (\<lambda>j. list_all (\<lambda>i.
          limit E (Div (ladder ! i) (ladder ! j)) = Inr (Integer 0)) [0 ..< j]) [0 ..< 16]
      \<and> \<not> truthy (is_positive E (Integer 0))
      \<and> list_all (\<lambda>j. is_constant E (ladder ! j) \<noteq> Inr (Some True)) [1 ..< 16]
      \<and> extract_degree_via_limit E (ladder ! 13) = Inr None
      \<and> leading_class E (ladder ! 13) \<notin> set labels)"



text \<open>The requests the program is run on below.\<close>

definition fib_request :: dict where
  "fib_request =
     [(KStr ''type'', PStr ''linear''),
      (KStr ''coeffs'', PList [PInt 1, PInt 1]),
      (KStr ''base'', PDict [(KStr ''0'', PInt 0), (KStr ''1'', PInt 1)]),
      (KStr ''f_n'', PStr ''0'')]"

definition counter_request :: dict where
  "counter_request =
     [(KStr ''type'', PStr ''linear''),
      (KStr ''coeffs'', PList [PInt 1]),
      (KStr ''base'', PDict [(KStr ''0'', PInt 0), (KStr ''1'', PInt 1)]),
      (KStr ''f_n'', PStr ''1'')]"

definition empty_base_request :: dict where
  "empty_base_request =
     [(KStr ''type'', PStr ''verify''),
      (KStr ''recurrence'', PStr ''T(n) - T(n-1) - 1''),
      (KStr ''solution'', PStr ''n''),
      (KStr ''base'', PDict [])]"







definition akra_bazzi_response :: "env \<Rightarrow> expr \<Rightarrow> pyfloat \<Rightarrow> dict" where
  "akra_bazzi_response E critical_exp p =
     [(KStr ''success'', PBool True),
      (KStr ''closed_form'', PNone),
      (KStr ''complexity'', PStr (''O(n^'' @ format_float E 4 p @ '')'')),
      (KStr ''method'', PStr ''akra_bazzi''),
      (KStr ''critical_exponent'', PStr (str E critical_exp)),
      (KStr ''verified'', PBool False),
      (KStr ''error'', PNone)]"





definition n_log_n_request :: dict where
  "n_log_n_request =
     [(KStr ''type'', PStr ''divide_conquer''), (KStr ''a'', PInt 2), (KStr ''b'', PInt 2),
      (KStr ''f_n'', PStr ''n*log(n)'')]"

definition default_linear_response :: dict where
  "default_linear_response =
     [(KStr ''success'', PBool True),
      (KStr ''closed_form'', PStr ''0''),
      (KStr ''complexity'', PStr ''O(1)''),
      (KStr ''latex'', PStr ''0''),
      (KStr ''verified'', PBool True),
      (KStr ''error'', PNone)]"

definition default_divide_conquer_response :: dict where
  "default_divide_conquer_response =
     [(KStr ''success'', PBool True),
      (KStr ''closed_form'', PNone),
      (KStr ''complexity'', PStr ''O(n^1 * log(n))''),
      (KStr ''master_theorem_case'', PInt 2),
      (KStr ''critical_exponent'', PStr ''1''),
      (KStr ''f_degree'', PFloat (Fin 1)),
      (KStr ''verified'', PBool True),
      (KStr ''error'', PNone)]"

definition fib_response :: dict where
  "fib_response =
     [(KStr ''success'', PBool True),
      (KStr ''closed_form'', PStr ''sqrt(5)*((1/2 + sqrt(5)/2)**n - (1/2 - sqrt(5)/2)**n)/5''),
      (KStr ''complexity'', PStr ''O(sqrt(5)*((1/2 + sqrt(5)/2)**n - (1/2 - sqrt(5)/2)**n)/5)''),
      (KStr ''latex'', PStr ''sqrt(5)*((1/2 + sqrt(5)/2)**n - (1/2 - sqrt(5)/2)**n)/5''),
      (KStr ''verified'', PBool True),
      (KStr ''error'', PNone)]"

definition bad_key_verify_request :: dict where
  "bad_key_verify_request =
     [(KStr ''type'', PStr ''verify''),
      (KStr ''solution'', PStr ''n''),
      (KStr ''base'', PDict [(KStr ''x'', PInt 0)])]"








definition theta_request :: dict where
  "theta_request =
     [(KStr ''type'', PStr ''compare''), (KStr ''f'', PStr ''n''), (KStr ''g'', PStr ''n**2''),
      (KStr ''bound_type'', PStr ''Theta'')]"

definition big_o_request :: dict where
  "big_o_request =
     [(KStr ''type'', PStr ''compare''), (KStr ''f'', PStr ''n''), (KStr ''g'', PStr ''n**2''),
      (KStr ''bound_type'', PStr ''O'')]"

text \<open>
  The responses of \<^verbatim>\<open>compare_complexities\<close> for a lower rung against a higher one:
  the ratio has the limit \<open>0\<close>, printed as \<^verbatim>\<open>limit_ratio\<close>.
\<close>

definition theta_response :: "env \<Rightarrow> dict" where
  "theta_response E =
     [(KStr ''success'', PBool True),
      (KStr ''bound_type'', PStr ''Theta''),
      (KStr ''holds'', PBool False),
      (KStr ''constants'', PNone),
      (KStr ''comparison'', PStr ''f < g''),
      (KStr ''limit_ratio'', PStr (str E (Integer 0)))]"

definition big_o_response :: "env \<Rightarrow> dict" where
  "big_o_response E =
     [(KStr ''success'', PBool True),
      (KStr ''bound_type'', PStr ''O''),
      (KStr ''holds'', PBool True),
      (KStr ''constant'', PFloat (Fin 0)),
      (KStr ''comparison'', PStr ''f < g''),
      (KStr ''limit_ratio'', PStr (str E (Integer 0)))]"

section \<open>Properties of the classifier\<close>

lemma extract_degree_via_limit_returns:
  "\<exists>r. extract_degree_via_limit E e = Inr r"
  by (simp add: extract_degree_via_limit_def split: sum.splits)

lemma extract_complexity_returns:
  "\<exists>s. extract_complexity E e = Inr s"
  by (simp add: extract_complexity_def split: sum.splits)

section \<open>Totality of the classification\<close>




section \<open>The ladder is separated\<close>

text \<open>
  The scan returns the label of the first candidate for which the engine finds a finite
  positive ratio limit, and nothing when there is none.
\<close>

lemma scan_first:
  "k < length cs \<Longrightarrow>
   (\<forall>i<k. \<not> has_positive_limit E e (fst (cs ! i))) \<Longrightarrow>
   has_positive_limit E e (fst (cs ! k)) \<Longrightarrow>
   scan E e cs = Some (snd (cs ! k))"
proof (induction cs arbitrary: k)
  case Nil
  then show ?case by simp
next
  case (Cons c cs)
  obtain ce cl where c: "c = (ce, cl)" by (cases c)
  show ?case
  proof (cases k)
    case 0
    with Cons.prems(3) c show ?thesis
      by (auto simp: has_positive_limit_def split: sum.splits)
  next
    case (Suc k')
    from Cons.prems(2) Suc have "\<not> has_positive_limit E e (fst ((c # cs) ! 0))" by blast
    with c have skip: "scan E e (c # cs) = scan E e cs"
      by (auto simp: has_positive_limit_def split: sum.splits)
    from Cons.prems(2) Suc have f1: "\<forall>i<k'. \<not> has_positive_limit E e (fst (cs ! i))" by auto
    from Cons.prems(1) Suc have f2: "k' < length cs" by simp
    from Cons.prems(3) Suc have f3: "has_positive_limit E e (fst (cs ! k'))" by simp
    from Cons.IH [OF f2 f1 f3] skip Suc show ?thesis by simp
  qed
qed

lemma scan_none:
  "(\<forall>i<length cs. \<not> has_positive_limit E e (fst (cs ! i))) \<Longrightarrow> scan E e cs = None"
proof (induction cs)
  case Nil
  then show ?case by simp
next
  case (Cons c cs)
  obtain ce cl where c: "c = (ce, cl)" by (cases c)
  from Cons.prems have "\<not> has_positive_limit E e (fst ((c # cs) ! 0))" by blast
  with c have skip: "scan E e (c # cs) = scan E e cs"
    by (auto simp: has_positive_limit_def split: sum.splits)
  from Cons.prems have "\<forall>i<length cs. \<not> has_positive_limit E e (fst (cs ! i))" by auto
  with Cons.IH skip show ?case by simp
qed

lemma length_candidates: "length candidates = 16"
  by (simp add: candidates_def)

lemma length_labels: "length labels = 16"
  by (simp add: labels_def candidates_def)

lemma distinct_labels: "distinct labels"
  by (simp add: labels_def candidates_def)

lemma unknown_not_label: "''O(?)'' \<notin> set labels"
  by (simp add: labels_def candidates_def)

lemma list_all_upt: "list_all P [a ..< b] = (\<forall>i. a \<le> i \<and> i < b \<longrightarrow> P i)"
  by (auto simp: list_all_iff)

lemma classified_by_scan:
  assumes "is_constant E e \<noteq> Inr (Some True)"
    and "scan E e candidates = Some l"
  shows "extract_complexity E e = Inr ''O(?)'' \<or> extract_complexity E e = Inr l"
  using assms
  by (cases "is_constant E e")
     (auto simp: extract_complexity_def extract_complexity_body_def truthy_def)

lemma classified_by_leading_term:
  assumes "is_constant E e \<noteq> Inr (Some True)"
    and "scan E e candidates = None"
    and "extract_degree_via_limit E e = Inr None"
  shows "extract_complexity E e = Inr ''O(?)''
       \<or> extract_complexity E e = Inr (leading_class E e)"
  using assms
  by (cases "is_constant E e")
     (auto simp: extract_complexity_def extract_complexity_body_def truthy_def)

text \<open>
  C2: let the engine be exact on the ladder (\<open>ladder_accurate\<close>). Then for every pair of
  rungs \<open>R1 < R2\<close> of the ladder \<open>1, log(n), log(n)^2, sqrt(n), n, n*log(n), n*log(n)^2,
  n^(3/2), n^2, n^2*log(n), n^3, n^4, 1.5^n, phi^n, 2^n, n!\<close> the classification of
  \<open>R2\<close> is not the label of \<open>R1\<close>, and a compare request whose \<^verbatim>\<open>f\<close> parses to
  \<open>R1\<close> and whose \<^verbatim>\<open>g\<close> parses to \<open>R2\<close> is answered with \<^verbatim>\<open>holds = False\<close>
  for the bound type \<^verbatim>\<open>Theta\<close> and with \<^verbatim>\<open>holds = True\<close> for the bound type
  \<^verbatim>\<open>O\<close>: the whole response is \<open>theta_response\<close>, respectively \<open>big_o_response\<close>.
  These are the values of \<^verbatim>\<open>verify_big_theta(R1, R2)\<close>, which is \<^verbatim>\<open>(False, None)\<close>,
  and of \<^verbatim>\<open>verify_big_o(R1, R2)\<close>, which is \<^verbatim>\<open>(True, 0.0)\<close>.
\<close>

theorem ladder_rungs_separated:
  assumes "ladder_accurate E" and "i < j" and "j < 16"
    and "parse_complexity E (dget data ''f'' (PStr ''n'')) = Inr (ladder ! i)"
    and "parse_complexity E (dget data ''g'' (PStr ''n'')) = Inr (ladder ! j)"
  shows "extract_complexity E (ladder ! j) \<noteq> Inr (labels ! i)
       \<and> verify_big_theta E (ladder ! i) (ladder ! j) = Inr (False, None)
       \<and> verify_big_o E (ladder ! i) (ladder ! j) = Inr (True, Some (Fin 0))
       \<and> (dget data ''bound_type'' (PStr ''Theta'') = PStr ''Theta'' \<longrightarrow>
            compare_complexities E data = Inr (theta_response E))
       \<and> (dget data ''bound_type'' (PStr ''Theta'') = PStr ''O'' \<longrightarrow>
            compare_complexities E data = Inr (big_o_response E))"
proof -
  from assms(1) have pos: "\<And>j i. j < 16 \<Longrightarrow> i < 16 \<Longrightarrow>
      has_positive_limit E (ladder ! j) (fst (candidates ! i)) = same_growth i j"
    and zero: "\<And>j i. j < 16 \<Longrightarrow> i < j \<Longrightarrow> ratio_limit E (ladder ! i) (ladder ! j) = Inr (Integer 0)"
    and raw: "\<And>j i. j < 16 \<Longrightarrow> i < j \<Longrightarrow> limit E (Div (ladder ! i) (ladder ! j)) = Inr (Integer 0)"
    and npos: "\<not> truthy (is_positive E (Integer 0))"
    and nconst: "\<And>j. 1 \<le> j \<Longrightarrow> j < 16 \<Longrightarrow> is_constant E (ladder ! j) \<noteq> Inr (Some True)"
    and nodeg: "extract_degree_via_limit E (ladder ! 13) = Inr None"
    and lead: "leading_class E (ladder ! 13) \<notin> set labels"
    by (simp_all add: ladder_accurate_def list_all_upt)
  have li: "labels ! i \<in> set labels"
    using assms(2,3) by (simp add: labels_def length_candidates)
  have nc: "is_constant E (ladder ! j) \<noteq> Inr (Some True)"
    using nconst assms(2,3) by simp
  have classify: "extract_complexity E (ladder ! j) \<noteq> Inr (labels ! i)"
  proof (cases "j = 13")
    case True
    have "\<forall>i<length candidates. \<not> has_positive_limit E (ladder ! j) (fst (candidates ! i))"
      using pos [OF assms(3)] True by (simp add: length_candidates same_growth_def)
    then have none: "scan E (ladder ! j) candidates = None" by (rule scan_none)
    from nodeg True have "extract_degree_via_limit E (ladder ! j) = Inr None" by simp
    from classified_by_leading_term [OF nc none this]
    have "extract_complexity E (ladder ! j) = Inr ''O(?)''
        \<or> extract_complexity E (ladder ! j) = Inr (leading_class E (ladder ! j))" .
    with lead li unknown_not_label True show ?thesis by auto
  next
    case False
    have "\<forall>i<j. \<not> has_positive_limit E (ladder ! j) (fst (candidates ! i))"
      using pos [OF assms(3)] assms(3) False by (auto simp: same_growth_def)
    moreover have "has_positive_limit E (ladder ! j) (fst (candidates ! j))"
      using pos [OF assms(3) assms(3)] False by (simp add: same_growth_def)
    moreover have "j < length candidates" using assms(3) by (simp add: length_candidates)
    ultimately have some: "scan E (ladder ! j) candidates = Some (snd (candidates ! j))"
      by (rule scan_first [rotated 1])
    from classified_by_scan [OF nc some]
    have "extract_complexity E (ladder ! j) = Inr ''O(?)''
        \<or> extract_complexity E (ladder ! j) = Inr (snd (candidates ! j))" .
    moreover have "snd (candidates ! j) = labels ! j"
      using assms(3) by (simp add: labels_def length_candidates)
    moreover have "labels ! j \<noteq> labels ! i"
      using nth_eq_iff_index_eq [OF distinct_labels, of j i] assms(2,3)
      by (simp add: length_labels)
    ultimately show ?thesis using li unknown_not_label by auto
  qed
  have z: "ratio_limit E (ladder ! i) (ladder ! j) = Inr (Integer 0)"
    using zero assms(2,3) by simp
  have l: "limit E (Div (ladder ! i) (ladder ! j)) = Inr (Integer 0)"
    using raw assms(2,3) by simp
  have theta: "verify_big_theta E (ladder ! i) (ladder ! j) = Inr (False, None)"
    using z npos by (simp add: verify_big_theta_def finite_positive_def)
  have big_o: "verify_big_o E (ladder ! i) (ladder ! j) = Inr (True, Some (Fin 0))"
    using z by (simp add: verify_big_o_def)
  have cmp: "compare_asymptotic E (ladder ! i) (ladder ! j) = Inr ''f < g''"
    using z by (simp add: compare_asymptotic_def)
  have t: "compare_complexities E data = Inr (theta_response E)"
    if "dget data ''bound_type'' (PStr ''Theta'') = PStr ''Theta''"
    using that assms(4,5) cmp theta l
    by (simp add: compare_complexities_def theta_response_def pair_or_none_def)
  have o: "compare_complexities E data = Inr (big_o_response E)"
    if "dget data ''bound_type'' (PStr ''Theta'') = PStr ''O''"
    using that assms(4,5) cmp big_o l
    by (simp add: compare_complexities_def big_o_response_def float_or_none_def)
  from classify theta big_o t o show ?thesis by blast
qed

theorem ladder_rungs_separated_witness:
  "ladder_accurate demo
   \<and> parse_complexity demo (dget theta_request ''f'' (PStr ''n'')) = Inr (ladder ! 4)
   \<and> parse_complexity demo (dget theta_request ''g'' (PStr ''n'')) = Inr (ladder ! 8)
   \<and> dget theta_request ''bound_type'' (PStr ''Theta'') = PStr ''Theta''
   \<and> dget big_o_request ''bound_type'' (PStr ''Theta'') = PStr ''O''
   \<and> extract_complexity demo (ladder ! 8) \<noteq> Inr (labels ! 4)
   \<and> verify_big_theta demo (ladder ! 4) (ladder ! 8) = Inr (False, None)
   \<and> verify_big_o demo (ladder ! 4) (ladder ! 8) = Inr (True, Some (Fin 0))
   \<and> compare_complexities demo theta_request = Inr (theta_response demo)
   \<and> compare_complexities demo big_o_request = Inr (big_o_response demo)
   \<and> extract_complexity demo (ladder ! 13) \<noteq> Inr (labels ! 12)"
proof -
  have a: "ladder_accurate demo" by code_simp
  have o: "(4::nat) < 8" "(8::nat) < 16" "(12::nat) < 13" "(13::nat) < 16" by simp_all
  have f1: "parse_complexity demo (dget theta_request ''f'' (PStr ''n'')) = Inr (ladder ! 4)"
    by code_simp
  have g1: "parse_complexity demo (dget theta_request ''g'' (PStr ''n'')) = Inr (ladder ! 8)"
    by code_simp
  have f2: "parse_complexity demo (dget big_o_request ''f'' (PStr ''n'')) = Inr (ladder ! 4)"
    by code_simp
  have g2: "parse_complexity demo (dget big_o_request ''g'' (PStr ''n'')) = Inr (ladder ! 8)"
    by code_simp
  have b1: "dget theta_request ''bound_type'' (PStr ''Theta'') = PStr ''Theta''" by code_simp
  have b2: "dget big_o_request ''bound_type'' (PStr ''Theta'') = PStr ''O''" by code_simp
  note w1 = ladder_rungs_separated [OF a o(1) o(2) f1 g1]
  note w2 = ladder_rungs_separated [OF a o(1) o(2) f2 g2]
  from w1 b1 have r1: "compare_complexities demo theta_request = Inr (theta_response demo)"
    by blast
  from w2 b2 have r2: "compare_complexities demo big_o_request = Inr (big_o_response demo)"
    by blast
  have c13: "extract_complexity demo (ladder ! 13) \<noteq> Inr (labels ! 12)" by code_simp
  from a f1 g1 b1 b2 w1 r1 r2 c13 show ?thesis by blast
qed

section \<open>Properties of the verifier\<close>

text \<open>
  C7, as stated: a verify request whose base-case mapping is empty does not report a
  successful base-case verification. The program has no such guard: the loop over the
  base cases starts from \<^verbatim>\<open>base_ok = True\<close> and an empty mapping never changes it.
  Here the request has the solution \<open>n\<close> and the base cases \<^verbatim>\<open>{}\<close>, and the response
  carries \<^verbatim>\<open>verified_base_cases = True\<close>.
\<close>

theorem empty_base_reported_verified:
  "verify_recurrence demo empty_base_request =
     Inr [(KStr ''success'', PBool True),
          (KStr ''verified_base_cases'', PBool True),
          (KStr ''base_case_details'', PDict []),
          (KStr ''complexity'', PStr ''O(n)''),
          (KStr ''error'', PNone)]"
  by code_simp

text \<open>
  C7, amended: a verify request whose base-case mapping is empty (or left out) and whose
  solution parses succeeds and reports \<^verbatim>\<open>verified_base_cases = True\<close> with empty
  \<^verbatim>\<open>base_case_details\<close>: the check is vacuous, for every engine.
\<close>

theorem empty_base_vacuous:
  assumes "parse_complexity E (dget data ''solution'' (PStr [])) = Inr solution"
    and "dget data ''base'' (PDict []) = PDict []"
  shows "\<exists>complexity. verify_recurrence E data =
     Inr [(KStr ''success'', PBool True),
          (KStr ''verified_base_cases'', PBool True),
          (KStr ''base_case_details'', PDict []),
          (KStr ''complexity'', PStr complexity),
          (KStr ''error'', PNone)]"
proof -
  obtain c where c: "extract_complexity E solution = Inr c"
    using extract_complexity_returns by blast
  show ?thesis
    using assms c by (simp add: verify_recurrence_def items_def)
qed

theorem empty_base_vacuous_witness:
  "parse_complexity demo (dget empty_base_request ''solution'' (PStr [])) = Inr SymN
   \<and> dget empty_base_request ''base'' (PDict []) = PDict []
   \<and> (\<exists>complexity. verify_recurrence demo empty_base_request =
         Inr [(KStr ''success'', PBool True),
              (KStr ''verified_base_cases'', PBool True),
              (KStr ''base_case_details'', PDict []),
              (KStr ''complexity'', PStr complexity),
              (KStr ''error'', PNone)])"
proof -
  have p: "parse_complexity demo (dget empty_base_request ''solution'' (PStr [])) = Inr SymN"
    by code_simp
  have b: "dget empty_base_request ''base'' (PDict []) = PDict []"
    by code_simp
  show ?thesis
    using p b empty_base_vacuous [OF p b] by blast
qed










section \<open>Properties of the divide-and-conquer analyzer\<close>




text \<open>
  \<open>search_log_power\<close> is the regular-expression search of \<^verbatim>\<open>get_log_power\<close>: what
  it returns is a longest non-empty run of digits that stands right after an occurrence
  of \<^verbatim>\<open>log(n)**\<close>.
\<close>

lemma starts_with_append:
  "starts_with p t \<Longrightarrow> t = p @ drop (length p) t"
  by (induction p t rule: starts_with.induct) auto

lemma search_log_power_finds:
  "search_log_power s = Some ds \<Longrightarrow>
   \<exists>before rest. s = before @ ''log(n)**'' @ ds @ rest \<and> ds \<noteq> []
      \<and> (\<forall>c \<in> set ds. is_digit c) \<and> (rest = [] \<or> \<not> is_digit (hd rest))"
proof (induction s)
  case Nil
  then show ?case by simp
next
  case (Cons c cs)
  let ?tail = "drop 8 (c # cs)"
  show ?case
  proof (cases "starts_with ''log(n)**'' (c # cs) \<and> takeWhile is_digit ?tail \<noteq> []")
    case True
    with Cons.prems have ds: "ds = takeWhile is_digit ?tail" by simp
    from True have st: "starts_with ''log(n)**'' (c # cs)" by blast
    have len: "length ''log(n)**'' = 8" by simp
    from starts_with_append [OF st] have "c # cs = ''log(n)**'' @ ?tail" unfolding len .
    moreover have "?tail = ds @ dropWhile is_digit ?tail" using ds by simp
    ultimately have "c # cs = [] @ ''log(n)**'' @ ds @ dropWhile is_digit ?tail" by simp
    moreover have "ds \<noteq> []" using True ds by simp
    moreover have "\<forall>c \<in> set ds. is_digit c" using ds by (auto dest: set_takeWhileD)
    moreover have "dropWhile is_digit ?tail = [] \<or> \<not> is_digit (hd (dropWhile is_digit ?tail))"
      using hd_dropWhile [of is_digit ?tail] by blast
    ultimately show ?thesis by blast
  next
    case False
    with Cons.prems have "search_log_power cs = Some ds" by (auto split: if_splits)
    from Cons.IH [OF this] obtain before rest where
      "cs = before @ ''log(n)**'' @ ds @ rest" "ds \<noteq> []" "\<forall>c \<in> set ds. is_digit c"
      "rest = [] \<or> \<not> is_digit (hd rest)" by blast
    then have "c # cs = (c # before) @ ''log(n)**'' @ ds @ rest" by simp
    with \<open>ds \<noteq> []\<close> \<open>\<forall>c \<in> set ds. is_digit c\<close> \<open>rest = [] \<or> \<not> is_digit (hd rest)\<close>
    show ?thesis by blast
  qed
qed






text \<open>
  C4: for a divide-and-conquer request whose driving term parses and is not polynomial
  (\<^verbatim>\<open>get_polynomial_degree\<close> returns \<^verbatim>\<open>None\<close>), the response is the simplified
  Akra-Bazzi estimate: class \<^verbatim>\<open>O(n^p)\<close> with \<open>p = log_b(a)\<close> printed to four
  decimals, \<^verbatim>\<open>verified = False\<close>, \<^verbatim>\<open>closed_form = None\<close>. The response does not
  depend on the driving term: no integral over it is evaluated.
\<close>

theorem akra_bazzi_fallback:
  assumes "parse_complexity E (dget data ''f_n'' (PStr ''n'')) = Inr f_n"
    and "sym_log E (dget data ''a'' (PInt 2)) (dget data ''b'' (PInt 2)) = Inr critical_exp"
    and "bnd (evalf E critical_exp) (to_float E) = Inr p"
    and "get_polynomial_degree E f_n = Inr None"
  shows "solve_divide_conquer E data = Inr (akra_bazzi_response E critical_exp p)"
  using assms
  by (simp add: solve_divide_conquer_def akra_bazzi_def akra_bazzi_response_def)

theorem akra_bazzi_fallback_witness:
  "get_polynomial_degree demo (Mul SymN (Log SymN)) = Inr None
   \<and> solve_divide_conquer demo n_log_n_request
       = Inr (akra_bazzi_response demo (Integer 1) (Fin 1))
   \<and> akra_bazzi_response demo (Integer 1) (Fin 1) =
       [(KStr ''success'', PBool True),
        (KStr ''closed_form'', PNone),
        (KStr ''complexity'', PStr ''O(n^1.0000)''),
        (KStr ''method'', PStr ''akra_bazzi''),
        (KStr ''critical_exponent'', PStr ''1''),
        (KStr ''verified'', PBool False),
        (KStr ''error'', PNone)]"
proof -
  have f: "parse_complexity demo (dget n_log_n_request ''f_n'' (PStr ''n''))
             = Inr (Mul SymN (Log SymN))" by code_simp
  have l: "sym_log demo (dget n_log_n_request ''a'' (PInt 2)) (dget n_log_n_request ''b'' (PInt 2))
             = Inr (Integer 1)" by code_simp
  have p: "bnd (evalf demo (Integer 1)) (to_float demo) = Inr (Fin 1)" by code_simp
  have g: "get_polynomial_degree demo (Mul SymN (Log SymN)) = Inr None" by code_simp
  have v: "akra_bazzi_response demo (Integer 1) (Fin 1) =
       [(KStr ''success'', PBool True),
        (KStr ''closed_form'', PNone),
        (KStr ''complexity'', PStr ''O(n^1.0000)''),
        (KStr ''method'', PStr ''akra_bazzi''),
        (KStr ''critical_exponent'', PStr ''1''),
        (KStr ''verified'', PBool False),
        (KStr ''error'', PNone)]" by code_simp
  from g akra_bazzi_fallback [OF f l p g] v show ?thesis by blast
qed

section \<open>Defaults of omitted fields\<close>

lemma dget_cons:
  "dget ((KStr k, v) # data) k' dflt = (if k' = k then v else dget data k' dflt)"
  by (simp add: dget_def)

lemma dget_absent:
  "map_of data (KStr k) = None \<Longrightarrow> dget data k dflt = dflt"
  by (simp add: dget_def)

text \<open>
  C10: a request that leaves a field out is processed exactly as the request that gives
  the field its default: for a linear request \<^verbatim>\<open>coeffs = [1]\<close>,
  \<^verbatim>\<open>base = {"0": 0}\<close> and \<^verbatim>\<open>f_n = "0"\<close>; for a divide-and-conquer request
  \<^verbatim>\<open>a = 2\<close>, \<^verbatim>\<open>b = 2\<close> and \<^verbatim>\<open>f_n = "n"\<close>; and a request with no
  \<^verbatim>\<open>type\<close> goes to the linear solver, as the request with \<^verbatim>\<open>type = "linear"\<close> does.
\<close>

theorem omitted_fields_default:
  "(map_of data (KStr ''coeffs'') = None \<longrightarrow>
      solve_linear_recurrence E data
        = solve_linear_recurrence E ((KStr ''coeffs'', PList [PInt 1]) # data))
   \<and> (map_of data (KStr ''base'') = None \<longrightarrow>
      solve_linear_recurrence E data
        = solve_linear_recurrence E ((KStr ''base'', PDict [(KStr ''0'', PInt 0)]) # data))
   \<and> (map_of data (KStr ''f_n'') = None \<longrightarrow>
      solve_linear_recurrence E data
        = solve_linear_recurrence E ((KStr ''f_n'', PStr ''0'') # data))
   \<and> (map_of data (KStr ''a'') = None \<longrightarrow>
      solve_divide_conquer E data = solve_divide_conquer E ((KStr ''a'', PInt 2) # data))
   \<and> (map_of data (KStr ''b'') = None \<longrightarrow>
      solve_divide_conquer E data = solve_divide_conquer E ((KStr ''b'', PInt 2) # data))
   \<and> (map_of data (KStr ''f_n'') = None \<longrightarrow>
      solve_divide_conquer E data = solve_divide_conquer E ((KStr ''f_n'', PStr ''n'') # data))
   \<and> (map_of data (KStr ''type'') = None \<longrightarrow>
      dispatch E (PDict data) = solve_linear_recurrence E data
      \<and> dispatch E (PDict data) = dispatch E (PDict ((KStr ''type'', PStr ''linear'') # data)))"
  by (simp add: solve_linear_recurrence_def solve_divide_conquer_def dispatch_def
        dget_cons dget_absent)

theorem omitted_fields_default_witness:
  "map_of ([] :: dict) (KStr ''coeffs'') = None
   \<and> solve_linear_recurrence demo [] = solve_linear_recurrence demo [(KStr ''coeffs'', PList [PInt 1])]
   \<and> solve_linear_recurrence demo []
       = solve_linear_recurrence demo [(KStr ''base'', PDict [(KStr ''0'', PInt 0)])]
   \<and> solve_linear_recurrence demo [] = solve_linear_recurrence demo [(KStr ''f_n'', PStr ''0'')]
   \<and> solve_divide_conquer demo [] = solve_divide_conquer demo [(KStr ''a'', PInt 2)]
   \<and> solve_divide_conquer demo [] = solve_divide_conquer demo [(KStr ''b'', PInt 2)]
   \<and> solve_divide_conquer demo [] = solve_divide_conquer demo [(KStr ''f_n'', PStr ''n'')]
   \<and> dispatch demo (PDict []) = solve_linear_recurrence demo []
   \<and> dispatch demo (PDict []) = dispatch demo (PDict [(KStr ''type'', PStr ''linear'')])
   \<and> main demo ''{}'' = Printed default_linear_response
   \<and> solve_divide_conquer demo [] = Inr default_divide_conquer_response"
proof -
  have m: "main demo ''{}'' = Printed default_linear_response" by code_simp
  have d: "solve_divide_conquer demo [] = Inr default_divide_conquer_response" by code_simp
  have a: "map_of ([] :: dict) (KStr ''coeffs'') = None"
    "map_of ([] :: dict) (KStr ''base'') = None"
    "map_of ([] :: dict) (KStr ''f_n'') = None"
    "map_of ([] :: dict) (KStr ''a'') = None"
    "map_of ([] :: dict) (KStr ''b'') = None"
    "map_of ([] :: dict) (KStr ''type'') = None"
    by simp_all
  from omitted_fields_default [of "[]" demo] a m d show ?thesis by blast
qed

section \<open>The golden-ratio rung\<close>

text \<open>
  The candidate list pairs the label \<^verbatim>\<open>O(phi^n)\<close> with the constant
  \<^verbatim>\<open>(1 + sqrt(5))/2\<close>, not with its \<open>n\<close>-th power. So the label comes out of the
  scan only for an expression whose ratio to a constant has a finite positive limit.
\<close>

lemma scan_some:
  "scan E e cs = Some l \<Longrightarrow> \<exists>c. (c, l) \<in> set cs \<and> has_positive_limit E e c"
proof (induction cs)
  case Nil
  then show ?case by simp
next
  case (Cons c cs)
  obtain ce cl where c: "c = (ce, cl)" by (cases c)
  show ?case
  proof (cases "has_positive_limit E e ce")
    case True
    with Cons.prems c have "l = cl"
      by (auto simp: has_positive_limit_def split: sum.splits)
    with True c show ?thesis by auto
  next
    case False
    with Cons.prems c have "scan E e cs = Some l"
      by (auto simp: has_positive_limit_def split: sum.splits if_splits)
    from Cons.IH [OF this] show ?thesis by auto
  qed
qed

lemma phi_label_candidate:
  "(c, ''O(phi^n)'') \<in> set candidates \<Longrightarrow> c = phi"
  by (auto simp: candidates_def phi_def)

lemma degree_class_text:
  "degree_class E d = Inr s \<Longrightarrow> s \<noteq> ''O(phi^n)''"
  by (cases "py_int_of_float d") (auto simp: degree_class_def split: if_splits)

lemma phi_label_origin:
  assumes "extract_complexity E e = Inr ''O(phi^n)''"
  shows "has_positive_limit E e phi \<or> leading_class E e = ''O(phi^n)''"
proof (cases "is_constant E e")
  case (Inl x)
  with assms show ?thesis
    by (simp add: extract_complexity_def extract_complexity_body_def)
next
  case (Inr c)
  show ?thesis
  proof (cases "truthy c")
    case True
    with Inr assms show ?thesis
      by (simp add: extract_complexity_def extract_complexity_body_def)
  next
    case False
    show ?thesis
    proof (cases "scan E e candidates")
      case (Some l)
      with Inr False assms have "l = ''O(phi^n)''"
        by (simp add: extract_complexity_def extract_complexity_body_def)
      with scan_some [OF Some] phi_label_candidate show ?thesis by blast
    next
      case None
      obtain r where r: "extract_degree_via_limit E e = Inr r"
        by (cases "extract_degree_via_limit E e")
           (auto simp: extract_degree_via_limit_def split: sum.splits)
      show ?thesis
      proof (cases r)
        case no_degree: None
        with Inr False None r assms show ?thesis
          by (simp add: extract_complexity_def extract_complexity_body_def)
      next
        case (Some d)
        with Inr False None r assms degree_class_text [of E d] show ?thesis
          by (cases "degree_class E d")
             (auto simp: extract_complexity_def extract_complexity_body_def)
      qed
    qed
  qed
qed

text \<open>
  C1 (the program departs from the claim): for the Fibonacci request (coefficients
  \<open>[1, 1]\<close>, base cases \<open>T(0) = 0\<close> and \<open>T(1) = 1\<close>, driving term \<open>0\<close>) the
  claim asks for the class \<^verbatim>\<open>O(phi^n)\<close>. On every engine that solves the recurrence,
  does not find a finite positive limit for the closed form over the constant \<open>phi\<close>
  (there is none: the closed form is unbounded) and does not print its leading term as
  \<^verbatim>\<open>phi^n\<close>, the request succeeds and the class reported is not \<^verbatim>\<open>O(phi^n)\<close>.
\<close>

theorem fibonacci_class_is_not_phi:
  assumes "parse_complexity E (PStr ''0'') = Inr f_n"
    and "build_recurrence E (Sub (AppT SymN) f_n) 0 [PInt 1, PInt 1] = Inr recurrence_eq"
    and "build_init_conds E [(KStr ''0'', PInt 0), (KStr ''1'', PInt 1)] [] = Inr init_conds"
    and "rsolve E recurrence_eq init_conds = Inr (Some solution0)"
    and "simplify E solution0 = Inr solution"
    and "\<not> has_positive_limit E solution phi"
    and "leading_class E solution \<noteq> ''O(phi^n)''"
  shows "\<exists>r. solve_linear_recurrence E fib_request = Inr r
           \<and> map_of r (KStr ''success'') = Some (PBool True)
           \<and> map_of r (KStr ''closed_form'') = Some (PStr (str E solution))
           \<and> map_of r (KStr ''complexity'') \<noteq> Some (PStr ''O(phi^n)'')"
proof -
  obtain c where c: "extract_complexity E solution = Inr c"
    using extract_complexity_returns by blast
  obtain v where v: "verify_solution_numerically E solution recurrence_eq init_conds = Inr v"
    by (cases "verify_solution_numerically E solution recurrence_eq init_conds")
       (auto simp: verify_solution_numerically_def Let_def split: sum.splits)
  from c assms(6,7) phi_label_origin [of E solution] have "c \<noteq> ''O(phi^n)''" by auto
  with assms(1-5) c v show ?thesis
    by (simp add: solve_linear_recurrence_def fib_request_def dget_def py_iter_def items_def)
qed

theorem fibonacci_class_is_not_phi_witness:
  "\<not> has_positive_limit demo fib_closed phi
   \<and> ratio_limit demo fib_closed phi = Inr Oo
   \<and> leading_class demo fib_closed \<noteq> ''O(phi^n)''
   \<and> solve_linear_recurrence demo fib_request = Inr fib_response
   \<and> (\<exists>r. solve_linear_recurrence demo fib_request = Inr r
           \<and> map_of r (KStr ''success'') = Some (PBool True)
           \<and> map_of r (KStr ''closed_form'') = Some (PStr (str demo fib_closed))
           \<and> map_of r (KStr ''complexity'') \<noteq> Some (PStr ''O(phi^n)''))"
proof -
  have h1: "parse_complexity demo (PStr ''0'') = Inr (Integer 0)" by code_simp
  have h2: "build_recurrence demo (Sub (AppT SymN) (Integer 0)) 0 [PInt 1, PInt 1]
              = Inr fib_equation" by code_simp
  have h3: "build_init_conds demo [(KStr ''0'', PInt 0), (KStr ''1'', PInt 1)] []
              = Inr [(0, Integer 0), (1, Integer 1)]" by code_simp
  have h4: "rsolve demo fib_equation [(0, Integer 0), (1, Integer 1)] = Inr (Some fib_closed)"
    by code_simp
  have h5: "simplify demo fib_closed = Inr fib_closed" by code_simp
  have h6: "\<not> has_positive_limit demo fib_closed phi" by code_simp
  have h7: "leading_class demo fib_closed \<noteq> ''O(phi^n)''" by code_simp
  have l: "ratio_limit demo fib_closed phi = Inr Oo" by code_simp
  have e: "solve_linear_recurrence demo fib_request = Inr fib_response" by code_simp
  from h6 l h7 e fibonacci_class_is_not_phi [OF h1 h2 h3 h4 h5 h6 h7] show ?thesis by blast
qed

section \<open>The trial indices of the numeric check\<close>

text \<open>
  C8 (the program departs from the claim): the claim places the trial indices at
  \<open>order + 1 .. order + 9\<close> for the order of the recurrence. The program takes
  \<^verbatim>\<open>order = len(init_conds)\<close>, the number of base cases. For \<open>T(n) = T(n-1) + 1\<close>
  (one coefficient, order 1) with the two base cases \<open>T(0) = 0\<close> and \<open>T(1) = 1\<close> the
  indices sampled are \<open>3 .. 11\<close>, not \<open>2 .. 10\<close>.
\<close>

theorem trial_indices_follow_base_cases:
  "py_iter (dget counter_request ''coeffs'' (PList [PInt 1])) = Inr [PInt 1]
   \<and> bnd (items (dget counter_request ''base'' (PDict [(KStr ''0'', PInt 0)])))
         (\<lambda>kvs. build_init_conds demo kvs []) = Inr [(0, Integer 0), (1, Integer 1)]
   \<and> trial_indices (length [(0 :: int, Integer 0), (1, Integer 1)]) = [3, 4, 5, 6, 7, 8, 9, 10, 11]
   \<and> trial_indices (length [PInt 1]) = [2, 3, 4, 5, 6, 7, 8, 9, 10]
   \<and> verify_solution_numerically demo SymN counter_equation [(0, Integer 0), (1, Integer 1)]
       = trial_loop demo SymN counter_equation 2 [3, 4, 5, 6, 7, 8, 9, 10, 11]
   \<and> solve_linear_recurrence demo counter_request =
       Inr [(KStr ''success'', PBool True),
            (KStr ''closed_form'', PStr ''n''),
            (KStr ''complexity'', PStr ''O(n)''),
            (KStr ''latex'', PStr ''n''),
            (KStr ''verified'', PBool True),
            (KStr ''error'', PNone)]"
  by code_simp

section \<open>Exceptions that leave the request\<close>

lemma py_int_x: "py_int ''x'' = Inl (int_literal_error ''x'')"
  by code_simp

text \<open>
  C9 (the program departs from the claim): the claim lets no exception cross the request
  boundary. In \<^verbatim>\<open>solve_linear_recurrence\<close> the conversion \<^verbatim>\<open>int(k)\<close> of the
  base-case keys stands outside every \<^verbatim>\<open>try\<close>, and \<^verbatim>\<open>main\<close> catches nothing
  around the dispatch: the linear request with the base cases \<^verbatim>\<open>{"x": 0}\<close> ends in an
  uncaught \<^verbatim>\<open>ValueError\<close>. \<^verbatim>\<open>verify_recurrence\<close> converts the same keys inside its
  \<^verbatim>\<open>try\<close> and answers the same base cases with a failure response.
\<close>

theorem bad_base_key_escapes:
  assumes "json_loads E s = Inr (PDict [(KStr ''type'', PStr ''linear''),
                                         (KStr ''base'', PDict [(KStr ''x'', PInt 0)])])"
    and "parse_complexity E (PStr ''0'') = Inr f_n"
    and "rmul E (PInt 1) (AppT (Sub (Sub SymN (Integer 1)) (Integer 0))) = Inr term"
    and "sympify_value E (PInt 0) = Inr zero"
    and "parse_complexity E (PStr ''n'') = Inr solution"
  shows "main E s = Uncaught (int_literal_error ''x'')
       \<and> dispatch E (PDict bad_key_verify_request)
           = Inr (failure (exn_msg (int_literal_error ''x'')))"
  using assms py_int_x
  by (simp add: main_def dispatch_def solve_linear_recurrence_def verify_recurrence_def
      bad_key_verify_request_def dget_def py_iter_def items_def)

theorem bad_base_key_escapes_witness:
  "json_loads demo bad_key_request
     = Inr (PDict [(KStr ''type'', PStr ''linear''), (KStr ''base'', PDict [(KStr ''x'', PInt 0)])])
   \<and> main demo bad_key_request = Uncaught (int_literal_error ''x'')
   \<and> dispatch demo (PDict bad_key_verify_request)
       = Inr (failure (exn_msg (int_literal_error ''x'')))
   \<and> exn_msg (int_literal_error ''x'')
       = ''invalid literal for int() with base 10: '' @ [CHR 0x27] @ ''x'' @ [CHR 0x27]"
proof -
  have h1: "json_loads demo bad_key_request
     = Inr (PDict [(KStr ''type'', PStr ''linear''), (KStr ''base'', PDict [(KStr ''x'', PInt 0)])])"
    by code_simp
  have h2: "parse_complexity demo (PStr ''0'') = Inr (Integer 0)" by code_simp
  have h3: "rmul demo (PInt 1) (AppT (Sub (Sub SymN (Integer 1)) (Integer 0)))
              = Inr (Mul (Integer 1) (AppT (Sub (Sub SymN (Integer 1)) (Integer 0))))"
    by code_simp
  have h4: "sympify_value demo (PInt 0) = Inr (Integer 0)" by code_simp
  have h5: "parse_complexity demo (PStr ''n'') = Inr SymN" by code_simp
  have m: "exn_msg (int_literal_error ''x'')
       = ''invalid literal for int() with base 10: '' @ [CHR 0x27] @ ''x'' @ [CHR 0x27]"
    by (simp add: int_literal_error_def)
  from h1 m bad_base_key_escapes [OF h1 h2 h3 h4 h5] show ?thesis by blast
qed

end
